theory Spec2Isabelle
  imports Main "HOL-Library.AList" "HOL-Library.Sublist"
begin

section \<open>JavaScript values\<close>

text \<open>
  The route handlers work on whatever \<open>JSON.parse\<close> returns, typed \<open>any\<close>. A value is
  modelled by \<open>jsval\<close>; \<open>undefined\<close> is \<open>None\<close> of \<open>jsval option\<close>. A number is an
  integer-valued double or an infinity: \<open>JNum n\<close> stands for the double nearest to \<open>n\<close>,
  which is what \<open>JSON.parse\<close> gives for the literal \<open>n\<close>, and is \<open>n\<close> itself when
  \<open>|n| \<le> 2^53\<close>. Numbers with a fractional part are outside this development, and \<open>-0\<close>
  is identified with \<open>0\<close>, which no code here tells apart. \<open>JNaN\<close> and \<open>JFun\<close> never
  occur in a parsed body; they arise at run time (\<open>undefined + 1\<close>, a method inherited
  from \<open>Object.prototype\<close>). An object is the list of its own properties; the first
  binding of a key is the one in force. A string is the list of its code units, so its
  \<open>length\<close> is the length of the list; every literal of the code is ASCII.
\<close>

datatype jsval =
    JNull
  | JBool bool
  | JNum int
  | JInf
  | JNegInf
  | JNaN
  | JStr string
  | JArr "jsval list"
  | JObj "(string \<times> jsval) list"
  | JFun string

datatype js_error =
    Error string
  | TypeError string
  | SyntaxError string

fun message :: "js_error \<Rightarrow> string" where
  "message (Error m) = m"
| "message (TypeError m) = m"
| "message (SyntaxError m) = m"

text \<open>Truthiness, as used by \<open>!x\<close>, \<open>x && y\<close>, \<open>x || y\<close> and \<open>if (x)\<close>.\<close>

fun js_truthy :: "jsval option \<Rightarrow> bool" where
  "js_truthy None = False"
| "js_truthy (Some JNull) = False"
| "js_truthy (Some (JBool b)) = b"
| "js_truthy (Some (JNum n)) = (n \<noteq> 0)"
| "js_truthy (Some JInf) = True"
| "js_truthy (Some JNegInf) = True"
| "js_truthy (Some JNaN) = False"
| "js_truthy (Some (JStr s)) = (s \<noteq> [])"
| "js_truthy (Some (JArr xs)) = True"
| "js_truthy (Some (JObj kvs)) = True"
| "js_truthy (Some (JFun f)) = True"

text \<open>\<open>a || b\<close> where \<open>b\<close> is never \<open>undefined\<close>.\<close>

definition js_or :: "jsval option \<Rightarrow> jsval \<Rightarrow> jsval" where
  "js_or a b = (case a of None \<Rightarrow> b | Some v \<Rightarrow> if js_truthy (Some v) then v else b)"

subsection \<open>Numbers\<close>

text \<open>Decimal digits of a natural number, as in \<open>`${response.status}`\<close>.\<close>

definition digit_char :: "nat \<Rightarrow> char" where
  "digit_char d = ''0123456789'' ! (d mod 10)"

fun string_of_nat :: "nat \<Rightarrow> string" where
  "string_of_nat n =
     (if n < 10 then [digit_char n] else string_of_nat (n div 10) @ [digit_char (n mod 10)])"

text \<open>The number of binary digits of a natural number.\<close>

fun bit_length :: "nat \<Rightarrow> nat" where
  "bit_length n = (if n = 0 then 0 else Suc (bit_length (n div 2)))"

text \<open>
  The magnitude of the double nearest to a natural number, rounding to 53 significant
  bits with ties to the even significand; \<open>None\<close> when the result overflows to
  \<open>Infinity\<close>.
\<close>

definition nearest_double :: "nat \<Rightarrow> nat option" where
  "nearest_double a =
     (if a \<le> 2 ^ 53 then Some a
      else let ulp = 2 ^ (bit_length a - 53);
               q = a div ulp;
               r = a mod ulp;
               half = ulp div 2;
               v = (if r < half \<or> (r = half \<and> even q) then q else q + 1) * ulp
           in if 2 ^ 1024 \<le> v then None else Some v)"

definition to_double :: "int \<Rightarrow> jsval" where
  "to_double n =
     (case nearest_double (nat \<bar>n\<bar>) of
        None \<Rightarrow> if n < 0 then JNegInf else JInf
      | Some v \<Rightarrow> JNum (if n < 0 then - int v else int v))"

text \<open>
  The shortest decimal that reads back as the double \<open>x\<close> above \<open>2^53\<close>: for each number
  \<open>k\<close> of significant digits in turn, the two neighbours of \<open>x\<close> with \<open>k\<close> digits are
  tried; of two that read back as \<open>x\<close> the closer one wins, the even one on a tie.
\<close>

primrec shortest_decimal :: "nat \<Rightarrow> nat list \<Rightarrow> nat" where
  "shortest_decimal x [] = x"
| "shortest_decimal x (k # ks) =
     (let scale = 10 ^ (length (string_of_nat x) - k);
          lo = (x div scale) * scale;
          hi = lo + scale
      in if nearest_double lo = Some x \<and> nearest_double hi = Some x
         then (if x - lo < hi - x \<or> (x - lo = hi - x \<and> even (x div scale)) then lo else hi)
         else if nearest_double lo = Some x then lo
         else if nearest_double hi = Some x then hi
         else shortest_decimal x ks)"

definition strip_zeros :: "string \<Rightarrow> string" where
  "strip_zeros ds = rev (dropWhile (\<lambda>c. c = CHR ''0'') (rev ds))"

text \<open>
  \<open>String(x)\<close> for a double \<open>x \<ge> 0\<close> with an integer value: all its digits up to
  \<open>2^53\<close>, then the shortest decimal that reads back as \<open>x\<close>, padded with zeros below
  \<open>10^21\<close> and in exponent notation from there on.
\<close>

definition number_text :: "nat \<Rightarrow> string" where
  "number_text x =
     (if x \<le> 2 ^ 53 then string_of_nat x
      else let ds = string_of_nat
                      (shortest_decimal x [1..<Suc (length (string_of_nat x))])
           in if length ds \<le> 21 then ds
              else (case strip_zeros ds of
                      [] \<Rightarrow> []
                    | d # rest \<Rightarrow>
                        d # (if rest = [] then [] else CHR ''.'' # rest)
                        @ ''e+'' @ string_of_nat (length ds - 1)))"

text \<open>\<open>String(v)\<close> for the number \<open>JNum n\<close>.\<close>

definition number_to_string :: "int \<Rightarrow> string" where
  "number_to_string n =
     (if n < 0 then ''-'' else [])
     @ (case nearest_double (nat \<bar>n\<bar>) of
          None \<Rightarrow> ''Infinity''
        | Some x \<Rightarrow> number_text x)"

subsection \<open>Property lookup\<close>

text \<open>
  Every plain object inherits from \<open>Object.prototype\<close>. Reading a key that is not an own
  property yields the inherited member: a built-in function for the method names, and the
  prototype object itself for \<open>__proto__\<close> (an empty object as far as truthiness and
  string conversion go).
\<close>

definition object_prototype_methods :: "string list" where
  "object_prototype_methods =
     [''__defineGetter__'', ''__defineSetter__'', ''hasOwnProperty'', ''__lookupGetter__'',
      ''__lookupSetter__'', ''isPrototypeOf'', ''propertyIsEnumerable'', ''toString'',
      ''valueOf'', ''toLocaleString'']"

definition object_prototype :: "string \<Rightarrow> jsval option" where
  "object_prototype k =
     (if k = ''constructor'' then Some (JFun ''Object'')
      else if k = ''__proto__'' then Some (JObj [])
      else if k \<in> set object_prototype_methods then Some (JFun k)
      else None)"

definition obj_get :: "(string \<times> jsval) list \<Rightarrow> string \<Rightarrow> jsval option" where
  "obj_get own k = (case map_of own k of Some v \<Rightarrow> Some v | None \<Rightarrow> object_prototype k)"

text \<open>
  \<open>v?.k\<close>, and \<open>v.k\<close> on a value that is not \<open>null\<close>: the own or inherited property
  of an object. None of the keys the routes read is defined on the prototypes of arrays,
  strings, numbers or booleans, so there the result is \<open>undefined\<close>.
\<close>

fun js_prop :: "jsval \<Rightarrow> string \<Rightarrow> jsval option" where
  "js_prop (JObj kvs) k = obj_get kvs k"
| "js_prop v k = None"

text \<open>\<open>v.k\<close>: a \<open>TypeError\<close> on \<open>null\<close>.\<close>

definition get_prop :: "jsval \<Rightarrow> string \<Rightarrow> js_error + jsval option" where
  "get_prop v k =
     (if v = JNull then Inl (TypeError ''Cannot read properties of null'') else Inr (js_prop v k))"

text \<open>Sequencing of computations that may throw.\<close>

definition bind :: "js_error + 'a \<Rightarrow> ('a \<Rightarrow> js_error + 'b) \<Rightarrow> js_error + 'b" where
  "bind m f = (case m of Inl e \<Rightarrow> Inl e | Inr x \<Rightarrow> f x)"

subsection \<open>String conversion and \<open>+\<close>\<close>

fun join_with :: "string \<Rightarrow> string list \<Rightarrow> string" where
  "join_with sep [] = []"
| "join_with sep [x] = x"
| "join_with sep (x # y # ys) = x @ sep @ join_with sep (y # ys)"

text \<open>
  \<open>String(v)\<close>. An array joins its elements with commas, \<open>null\<close> elements giving the empty
  string; a plain object is \<open>[object Object]\<close>.
\<close>

fun js_to_string :: "jsval \<Rightarrow> string" where
  "js_to_string JNull = ''null''"
| "js_to_string (JBool b) = (if b then ''true'' else ''false'')"
| "js_to_string (JNum n) = number_to_string n"
| "js_to_string JInf = ''Infinity''"
| "js_to_string JNegInf = ''-Infinity''"
| "js_to_string JNaN = ''NaN''"
| "js_to_string (JStr s) = s"
| "js_to_string (JArr xs) =
     join_with '','' (map (\<lambda>x. if x = JNull then [] else js_to_string x) xs)"
| "js_to_string (JObj kvs) = ''[object Object]''"
| "js_to_string (JFun f) = ''function '' @ f @ ''() { [native code] }''"

definition to_string :: "jsval option \<Rightarrow> string" where
  "to_string v = (case v of None \<Rightarrow> ''undefined'' | Some x \<Rightarrow> js_to_string x)"

text \<open>Whether \<open>ToPrimitive\<close> yields a string, which makes \<open>+\<close> concatenate.\<close>

fun stringy :: "jsval option \<Rightarrow> bool" where
  "stringy (Some (JStr s)) = True"
| "stringy (Some (JArr xs)) = True"
| "stringy (Some (JObj kvs)) = True"
| "stringy (Some (JFun f)) = True"
| "stringy v = False"

text \<open>\<open>Number(v)\<close> on the remaining values.\<close>

fun to_number :: "jsval option \<Rightarrow> jsval" where
  "to_number (Some JNull) = JNum 0"
| "to_number (Some (JBool b)) = JNum (if b then 1 else 0)"
| "to_number (Some (JNum n)) = to_double n"
| "to_number (Some JInf) = JInf"
| "to_number (Some JNegInf) = JNegInf"
| "to_number v = JNaN"

fun the_int :: "jsval \<Rightarrow> int" where
  "the_int (JNum n) = n"
| "the_int v = 0"

text \<open>
  The sum of two numbers: the exact sum rounded to the nearest double, with the rules of
  \<open>NaN\<close> and of the infinities.
\<close>

definition add_numbers :: "jsval \<Rightarrow> jsval \<Rightarrow> jsval" where
  "add_numbers x y =
     (if x = JNaN \<or> y = JNaN then JNaN
      else if x = JInf then (if y = JNegInf then JNaN else JInf)
      else if x = JNegInf then (if y = JInf then JNaN else JNegInf)
      else if y = JInf \<or> y = JNegInf then y
      else to_double (the_int x + the_int y))"

definition js_add :: "jsval option \<Rightarrow> jsval option \<Rightarrow> jsval" where
  "js_add a b =
     (if stringy a \<or> stringy b then JStr (to_string a @ to_string b)
      else add_numbers (to_number a) (to_number b))"

text \<open>
  \<open>v.length\<close> on a value that is not \<open>null\<close>: the number of elements of an array, of code
  units of a string, an own \<open>length\<close> property of an object, \<open>undefined\<close> otherwise.
\<close>

fun js_length :: "jsval \<Rightarrow> jsval option" where
  "js_length (JArr xs) = Some (JNum (int (length xs)))"
| "js_length (JStr s) = Some (JNum (int (length s)))"
| "js_length (JObj kvs) = obj_get kvs ''length''"
| "js_length v = None"

section \<open>HTTP exchanges\<close>

text \<open>
  What \<open>await fetch(url, ...)\<close> gives: a rejection (network failure) or a response. A
  response carries its status, its body as text and the outcome of parsing that body as
  JSON (\<open>Inl\<close> when \<open>response.json()\<close> rejects or \<open>JSON.parse\<close> throws). \<open>ok\<close> is
  \<open>response.ok\<close>: the status is in the range 200 to 299.
\<close>

record http_response =
  status :: nat
  statusText :: string
  body_text :: string
  body_json :: "js_error + jsval"

datatype fetch_result = Rejected js_error | Resolved http_response

definition ok :: "http_response \<Rightarrow> bool" where
  "ok response = (200 \<le> status response \<and> status response \<le> 299)"

record process_env =
  BLUMIRA_CLIENT_ID :: "string option"
  BLUMIRA_CLIENT_SECRET :: "string option"

definition env_truthy :: "string option \<Rightarrow> bool" where
  "env_truthy v = (case v of None \<Rightarrow> False | Some s \<Rightarrow> s \<noteq> [])"

section \<open>The organizations route\<close>

subsection \<open>Token acquisition\<close>

text \<open>
  \<open>getAccessToken\<close> of the organizations route. After a successful status it returns
  \<open>data.access_token\<close> as it is; the \<open>catch\<close> logs and rethrows.
\<close>

definition getAccessToken :: "process_env \<Rightarrow> fetch_result \<Rightarrow> js_error + jsval option" where
  "getAccessToken env res =
     (if \<not> env_truthy (BLUMIRA_CLIENT_ID env) \<or> \<not> env_truthy (BLUMIRA_CLIENT_SECRET env)
      then Inl (Error ''BLUMIRA_CLIENT_ID and BLUMIRA_CLIENT_SECRET environment variables are required'')
      else case res of
             Rejected e \<Rightarrow> Inl e
           | Resolved response \<Rightarrow>
               if \<not> ok response
               then Inl (Error (''Authentication failed ('' @ string_of_nat (status response)
                                 @ ''): '' @ body_text response))
               else bind (body_json response) (\<lambda>data. get_prop data ''access_token''))"

subsection \<open>Per-account resource fetches\<close>

text \<open>
  The account-details block of \<open>fetchAccountDetails\<close>: the value of \<open>accountDetails\<close>
  after it, \<open>JNull\<close> being the initial \<open>null\<close>. Whatever is thrown inside the block is
  caught and logged.
\<close>

definition fetch_details :: "fetch_result \<Rightarrow> jsval" where
  "fetch_details res =
     (case res of
        Rejected e \<Rightarrow> JNull
      | Resolved accountResponse \<Rightarrow>
          if ok accountResponse
          then (case body_json accountResponse of
                  Inl e \<Rightarrow> JNull
                | Inr accountData \<Rightarrow>
                    (case get_prop accountData ''status'' of
                       Inl e \<Rightarrow> JNull
                     | Inr st \<Rightarrow>
                         (case js_prop accountData ''data'' of
                            None \<Rightarrow> accountData
                          | Some d \<Rightarrow>
                              if st = Some (JStr ''OK'') \<and> js_truthy (Some d) then d
                              else accountData)))
          else JNull)"

text \<open>
  The devices, keys and findings blocks are the same code on three endpoints: the list
  starts as \<open>[]\<close> and its meta as \<open>null\<close>, and both are assigned only under
  \<open>status === "OK" && data\<close>. The result is the pair (list, meta) after the block.
\<close>

definition fetch_list :: "fetch_result \<Rightarrow> jsval \<times> jsval option" where
  "fetch_list res =
     (case res of
        Rejected e \<Rightarrow> (JArr [], Some JNull)
      | Resolved response \<Rightarrow>
          if ok response
          then (case body_json response of
                  Inl e \<Rightarrow> (JArr [], Some JNull)
                | Inr body \<Rightarrow>
                    (case get_prop body ''status'' of
                       Inl e \<Rightarrow> (JArr [], Some JNull)
                     | Inr st \<Rightarrow>
                         (case js_prop body ''data'' of
                            None \<Rightarrow> (JArr [], Some JNull)
                          | Some d \<Rightarrow>
                              if st = Some (JStr ''OK'') \<and> js_truthy (Some d)
                              then (d, js_prop body ''meta'')
                              else (JArr [], Some JNull))))
          else (JArr [], Some JNull))"

subsection \<open>Counting\<close>

text \<open>\<open>v.filter\<close> and \<open>v.map\<close> exist on arrays only; calling them elsewhere throws.\<close>

definition as_array :: "jsval \<Rightarrow> js_error + jsval list" where
  "as_array v = (case v of JArr xs \<Rightarrow> Inr xs | _ \<Rightarrow> Inl (TypeError ''not a function''))"

text \<open>\<open>xs.filter(p).length\<close> for a predicate that may throw.\<close>

fun count_where :: "(jsval \<Rightarrow> js_error + bool) \<Rightarrow> jsval list \<Rightarrow> js_error + nat" where
  "count_where p [] = Inr 0"
| "count_where p (x # xs) =
     bind (p x) (\<lambda>b. bind (count_where p xs) (\<lambda>n. Inr (if b then Suc n else n)))"

text \<open>\<open>!device.is_sleeping && device.alive\<close>\<close>

definition is_online :: "jsval \<Rightarrow> js_error + bool" where
  "is_online device =
     bind (get_prop device ''is_sleeping'')
       (\<lambda>sleeping. Inr (\<not> js_truthy sleeping \<and> js_truthy (js_prop device ''alive'')))"

text \<open>\<open>device.k\<close> as a condition\<close>

definition has_flag :: "string \<Rightarrow> jsval \<Rightarrow> js_error + bool" where
  "has_flag k device = bind (get_prop device k) (\<lambda>v. Inr (js_truthy v))"

text \<open>\<open>f.k === c\<close>\<close>

definition prop_is :: "string \<Rightarrow> jsval \<Rightarrow> jsval \<Rightarrow> js_error + bool" where
  "prop_is k c f = bind (get_prop f k) (\<lambda>v. Inr (v = Some c))"

subsection \<open>The per-account summary\<close>

record account_details =
  accountDetails :: jsval
  agentDevices :: "jsval list"
  agentKeys :: jsval
  findings :: "jsval list"
  agentDeviceCount :: nat
  agentKeyCount :: "jsval option"
  findingsCount :: nat
  criticalFindingsCount :: nat
  openFindingsCount :: nat
  onlineDevices :: nat
  sleepingDevices :: nat
  isolatedDevices :: nat
  excludedDevices :: nat
  agent_count_available :: jsval
  agent_count_used :: jsval
  license :: jsval
  user_count :: jsval
  agentDevicesMeta :: "jsval option"
  agentKeysMeta :: "jsval option"
  findingsMeta :: "jsval option"

record org_fetches =
  details_res :: fetch_result
  devices_res :: fetch_result
  keys_res :: fetch_result
  findings_res :: fetch_result

text \<open>
  The statements of \<open>fetchAccountDetails\<close> after the four blocks: the four device
  filters, then the object literal, in source order.
\<close>

definition summary :: "jsval \<Rightarrow> jsval \<times> jsval option \<Rightarrow> jsval \<times> jsval option \<Rightarrow>
    jsval \<times> jsval option \<Rightarrow> js_error + account_details" where
  "summary details devs keys fnds =
     bind (as_array (fst devs)) (\<lambda>devices.
     bind (count_where is_online devices) (\<lambda>online.
     bind (count_where (has_flag ''is_sleeping'') devices) (\<lambda>sleeping.
     bind (count_where (has_flag ''is_isolated'') devices) (\<lambda>isolated.
     bind (count_where (has_flag ''is_excluded'') devices) (\<lambda>excluded.
     bind (as_array (fst fnds)) (\<lambda>fs.
     bind (count_where (prop_is ''priority'' (JNum 1)) fs) (\<lambda>critical.
     bind (count_where (prop_is ''status_name'' (JStr ''Open'')) fs) (\<lambda>opened.
     Inr \<lparr> accountDetails = details,
           agentDevices = devices,
           agentKeys = fst keys,
           findings = fs,
           agentDeviceCount = length devices,
           agentKeyCount = js_length (fst keys),
           findingsCount = length fs,
           criticalFindingsCount = critical,
           openFindingsCount = opened,
           onlineDevices = online,
           sleepingDevices = sleeping,
           isolatedDevices = isolated,
           excludedDevices = excluded,
           agent_count_available = js_or (js_prop details ''agent_count_available'') (JNum 0),
           agent_count_used = js_or (js_prop details ''agent_count_used'') (JNum 0),
           license = js_or (js_prop details ''license'') (JStr ''Unknown''),
           user_count = js_or (js_prop details ''user_count'') (JNum 0),
           agentDevicesMeta = snd devs,
           agentKeysMeta = snd keys,
           findingsMeta = snd fnds \<rparr>))))))))"

text \<open>The object returned by the outer \<open>catch\<close>.\<close>

definition default_details :: account_details where
  "default_details =
     \<lparr> accountDetails = JNull, agentDevices = [], agentKeys = JArr [], findings = [],
       agentDeviceCount = 0, agentKeyCount = Some (JNum 0), findingsCount = 0,
       criticalFindingsCount = 0, openFindingsCount = 0,
       onlineDevices = 0, sleepingDevices = 0, isolatedDevices = 0, excludedDevices = 0,
       agent_count_available = JNum 0, agent_count_used = JNum 0,
       license = JStr ''Unknown'', user_count = JNum 0,
       agentDevicesMeta = Some JNull, agentKeysMeta = Some JNull, findingsMeta = Some JNull \<rparr>"

definition fetchAccountDetails :: "org_fetches \<Rightarrow> account_details" where
  "fetchAccountDetails f =
     (case summary (fetch_details (details_res f)) (fetch_list (devices_res f))
             (fetch_list (keys_res f)) (fetch_list (findings_res f)) of
        Inl e \<Rightarrow> default_details
      | Inr d \<Rightarrow> d)"


subsection \<open>Organizations\<close>

text \<open>
  The object built for each account, \<open>{...account, ...details, id, name, open_findings}\<close>:
  a key resolves to one of the last three fields, else to the key of \<open>details\<close>, else to
  the own property of \<open>account\<close>.
\<close>

record organization =
  account :: jsval
  details :: account_details
  org_id :: "jsval option"
  org_name :: "jsval option"
  open_findings :: jsval

text \<open>The callback of \<open>accounts.map\<close>; \<open>account.account_id\<close> throws on \<open>null\<close>.\<close>

definition org_summary :: "org_fetches \<Rightarrow> jsval \<Rightarrow> js_error + organization" where
  "org_summary f acct =
     bind (get_prop acct ''account_id'') (\<lambda>account_id.
       Inr \<lparr> account = acct,
             details = fetchAccountDetails f,
             org_id = account_id,
             org_name = js_prop acct ''name'',
             open_findings = js_or (js_prop acct ''open_findings'')
                               (JNum (int (openFindingsCount (fetchAccountDetails f)))) \<rparr>)"

text \<open>\<open>Promise.all\<close>: the results in order, or the first rejection.\<close>

fun promise_all :: "(js_error + 'a) list \<Rightarrow> js_error + 'a list" where
  "promise_all [] = Inr []"
| "promise_all (p # ps) = bind p (\<lambda>x. bind (promise_all ps) (\<lambda>xs. Inr (x # xs)))"

text \<open>
  The upstream is a function from the position of an account in the accounts list to the
  outcomes of the four fetches made for it.
\<close>

definition accountsWithDetails ::
    "(nat \<Rightarrow> org_fetches) \<Rightarrow> jsval list \<Rightarrow> js_error + organization list" where
  "accountsWithDetails upstream accounts =
     promise_all (map (\<lambda>(i, acct). org_summary (upstream i) acct) (enumerate 0 accounts))"

subsection \<open>Totals\<close>

text \<open>
  Assignment \<open>acc[k] = v\<close> of a primitive \<open>v\<close> on a plain object: \<open>__proto__\<close> is an
  accessor whose setter ignores primitives, any other key becomes an own property.
\<close>

definition obj_set :: "(string \<times> jsval) list \<Rightarrow> string \<Rightarrow> jsval \<Rightarrow> (string \<times> jsval) list" where
  "obj_set own k v = (if k = ''__proto__'' then own else AList.update k v own)"

text \<open>The reducer of \<open>licenseBreakdown\<close>: \<open>acc[org.license] = (acc[org.license] || 0) + 1\<close>.\<close>

definition count_license :: "(string \<times> jsval) list \<Rightarrow> organization \<Rightarrow> (string \<times> jsval) list" where
  "count_license acc org =
     obj_set acc (js_to_string (license (details org)))
       (js_add (Some (js_or (obj_get acc (js_to_string (license (details org)))) (JNum 0)))
               (Some (JNum 1)))"

record fleet_totals =
  totalAgentDevices :: nat
  totalAgentKeys :: jsval
  totalFindings :: nat
  totalCriticalFindings :: nat
  totalOpenFindings :: nat
  totalOnlineDevices :: nat
  totalSleepingDevices :: nat
  totalIsolatedDevices :: nat
  totalExcludedDevices :: nat
  totalAgentCountAvailable :: jsval
  totalAgentCountUsed :: jsval
  totalUserCount :: jsval
  licenseBreakdown :: "(string \<times> jsval) list"

text \<open>
  \<open>xs.reduce((sum, org) => sum + org.k, 0)\<close> is a left fold. Fields that are array
  lengths or filter counts are numbers and add as such; the others go through \<open>+\<close> on
  values.
\<close>

definition calc_totals :: "organization list \<Rightarrow> fleet_totals" where
  "calc_totals orgs =
     \<lparr> totalAgentDevices = foldl (\<lambda>sum org. sum + agentDeviceCount (details org)) 0 orgs,
       totalAgentKeys =
         foldl (\<lambda>sum org. js_add (Some sum) (agentKeyCount (details org))) (JNum 0) orgs,
       totalFindings = foldl (\<lambda>sum org. sum + findingsCount (details org)) 0 orgs,
       totalCriticalFindings = foldl (\<lambda>sum org. sum + criticalFindingsCount (details org)) 0 orgs,
       totalOpenFindings = foldl (\<lambda>sum org. sum + openFindingsCount (details org)) 0 orgs,
       totalOnlineDevices = foldl (\<lambda>sum org. sum + onlineDevices (details org)) 0 orgs,
       totalSleepingDevices = foldl (\<lambda>sum org. sum + sleepingDevices (details org)) 0 orgs,
       totalIsolatedDevices = foldl (\<lambda>sum org. sum + isolatedDevices (details org)) 0 orgs,
       totalExcludedDevices = foldl (\<lambda>sum org. sum + excludedDevices (details org)) 0 orgs,
       totalAgentCountAvailable =
         foldl (\<lambda>sum org. js_add (Some sum) (Some (agent_count_available (details org))))
           (JNum 0) orgs,
       totalAgentCountUsed =
         foldl (\<lambda>sum org. js_add (Some sum) (Some (agent_count_used (details org))))
           (JNum 0) orgs,
       totalUserCount =
         foldl (\<lambda>sum org. js_add (Some sum) (Some (user_count (details org)))) (JNum 0) orgs,
       licenseBreakdown = foldl count_license [] orgs \<rparr>"

subsection \<open>The handler\<close>

record debug_info =
  organizationCount :: nat
  debug_totals :: fleet_totals
  timestamp :: string

record organizations_body =
  organizations :: "organization list"
  meta :: "jsval option"
  totals :: fleet_totals
  debug :: debug_info

record error_body =
  error :: string
  error_timestamp :: string

datatype organizations_payload = Organizations organizations_body | Failure error_body

text \<open>What \<open>NextResponse.json(payload, {status: code})\<close> sends; the default status is 200.\<close>

record 'p reply =
  code :: nat
  payload :: 'p

text \<open>
  The envelope check on the accounts list:
  \<open>if (accountsData.status !== "OK" || !accountsData.data) throw ...\<close>, then
  \<open>accounts = accountsData.data\<close> and \<open>accountsMeta = accountsData.meta\<close>.
\<close>

definition accounts_payload :: "jsval \<Rightarrow> js_error + jsval \<times> jsval option" where
  "accounts_payload accountsData =
     bind (get_prop accountsData ''status'') (\<lambda>st.
       case js_prop accountsData ''data'' of
         None \<Rightarrow> Inl (Error ''Invalid response format from MSP accounts endpoint'')
       | Some d \<Rightarrow>
           if st \<noteq> Some (JStr ''OK'') \<or> \<not> js_truthy (Some d)
           then Inl (Error ''Invalid response format from MSP accounts endpoint'')
           else Inr (d, js_prop accountsData ''meta''))"

text \<open>
  The \<open>try\<close> body of \<open>GET\<close>. \<open>now\<close> is what \<open>new Date().toISOString()\<close> returns. The
  token only parametrises the requests, whose outcomes are inputs here.
\<close>

definition organizations_try :: "process_env \<Rightarrow> fetch_result \<Rightarrow> fetch_result \<Rightarrow>
    (nat \<Rightarrow> org_fetches) \<Rightarrow> string \<Rightarrow> js_error + organizations_body" where
  "organizations_try env tokenRes accountsRes upstream now =
     bind (getAccessToken env tokenRes) (\<lambda>token.
       case accountsRes of
         Rejected e \<Rightarrow> Inl e
       | Resolved accountsResponse \<Rightarrow>
           if \<not> ok accountsResponse
           then Inl (Error (''Failed to fetch MSP accounts: ''
                             @ string_of_nat (status accountsResponse)))
           else
             bind (body_json accountsResponse) (\<lambda>accountsData.
             bind (accounts_payload accountsData) (\<lambda>(accounts, accountsMeta).
             bind (as_array accounts) (\<lambda>accts.
             bind (accountsWithDetails upstream accts) (\<lambda>orgs.
               Inr \<lparr> organizations = orgs,
                     meta = accountsMeta,
                     totals = calc_totals orgs,
                     debug = \<lparr> organizationCount = length orgs,
                               debug_totals = calc_totals orgs,
                               timestamp = now \<rparr> \<rparr>)))))"

text \<open>
  \<open>GET\<close> of the organizations route. Everything thrown in the \<open>try\<close> body is an
  \<open>Error\<close> instance, so the reported text is its message.
\<close>

definition organizations_GET :: "process_env \<Rightarrow> fetch_result \<Rightarrow> fetch_result \<Rightarrow>
    (nat \<Rightarrow> org_fetches) \<Rightarrow> string \<Rightarrow> organizations_payload reply" where
  "organizations_GET env tokenRes accountsRes upstream now =
     (case organizations_try env tokenRes accountsRes upstream now of
        Inr body \<Rightarrow> \<lparr> code = 200, payload = Organizations body \<rparr>
      | Inl e \<Rightarrow> \<lparr> code = 500,
                   payload = Failure \<lparr> error = message e, error_timestamp = now \<rparr> \<rparr>)"

subsection \<open>The order of the requests\<close>

















section \<open>The dashboard route\<close>

text \<open>
  \<open>getAccessToken\<close> of the dashboard route. It reads the body as text, parses it itself
  and checks the token before returning it.
\<close>

definition dashboard_getAccessToken ::
    "process_env \<Rightarrow> fetch_result \<Rightarrow> js_error + jsval option" where
  "dashboard_getAccessToken env res =
     (if \<not> env_truthy (BLUMIRA_CLIENT_ID env) \<or> \<not> env_truthy (BLUMIRA_CLIENT_SECRET env)
      then Inl (Error ''BLUMIRA_CLIENT_ID and BLUMIRA_CLIENT_SECRET environment variables are required'')
      else case res of
             Rejected e \<Rightarrow> Inl e
           | Resolved response \<Rightarrow>
               if \<not> ok response
               then Inl (Error (''Authentication failed ('' @ string_of_nat (status response)
                                 @ ''): ''
                                 @ (if body_text response \<noteq> [] then body_text response
                                    else statusText response)))
               else (case body_json response of
                       Inl parseError \<Rightarrow>
                         Inl (Error ''Invalid JSON response from authentication endpoint'')
                     | Inr data \<Rightarrow>
                         bind (get_prop data ''access_token'') (\<lambda>access_token.
                           if \<not> js_truthy access_token
                           then Inl (Error ''No access token received from authentication endpoint'')
                           else Inr access_token)))"

section \<open>The credentials route\<close>

subsection \<open>Lines of the credentials file\<close>

text \<open>\<open>s.split("\n")\<close>, \<open>lines.join("\n")\<close> and \<open>line.startsWith(p)\<close>.\<close>

definition newline :: char where
  "newline = CHR 0x0A"

fun split_lines :: "string \<Rightarrow> string list" where
  "split_lines [] = [[]]"
| "split_lines (c # cs) =
     (if c = newline then [] # split_lines cs
      else (case split_lines cs of
              [] \<Rightarrow> [[c]]
            | l # ls \<Rightarrow> (c # l) # ls))"

definition startsWith :: "string \<Rightarrow> string \<Rightarrow> bool" where
  "startsWith line p = (take (length p) line = p)"

definition remove_credentials :: "string \<Rightarrow> string list" where
  "remove_credentials envContent =
     filter (\<lambda>line. \<not> startsWith line ''BLUMIRA_CLIENT_ID=''
                   \<and> \<not> startsWith line ''BLUMIRA_CLIENT_SECRET='')
       (split_lines envContent)"

subsection \<open>Server state\<close>

text \<open>
  The file \<open>.env.local\<close> (\<open>None\<close> when it does not exist) and what the file system
  throws on a read or a write, if it refuses.
\<close>

record file_system =
  env_file :: "string option"
  read_error :: "js_error option"
  write_error :: "js_error option"

record server_state =
  proc_env :: process_env
  disk :: file_system

text \<open>
  What \<open>process.env.K\<close> reads after \<open>process.env.K = v\<close>: the string is handed to the
  operating system as a NUL-terminated string, so it ends before its first \<open>U+0000\<close>.
\<close>

definition env_value :: "string \<Rightarrow> string" where
  "env_value v = takeWhile (\<lambda>c. c \<noteq> CHR 0x00) v"

definition existsSync :: "file_system \<Rightarrow> bool" where
  "existsSync f = (env_file f \<noteq> None)"

definition readFileSync :: "file_system \<Rightarrow> js_error + string" where
  "readFileSync f =
     (case read_error f of
        Some e \<Rightarrow> Inl e
      | None \<Rightarrow> (case env_file f of
                   None \<Rightarrow> Inl (Error ''ENOENT: no such file or directory'')
                 | Some content \<Rightarrow> Inr content))"

definition writeFileSync :: "file_system \<Rightarrow> string \<Rightarrow> js_error + file_system" where
  "writeFileSync f content =
     (case write_error f of
        Some e \<Rightarrow> Inl e
      | None \<Rightarrow> Inr (f\<lparr> env_file := Some content \<rparr>))"

subsection \<open>Handlers\<close>

record credentials_status =
  hasCredentials :: bool
  hasClientId :: bool
  hasClientSecret :: bool
  clientIdLength :: nat
  clientSecretLength :: nat

text \<open>
  The bodies the route sends: the status report of \<open>GET\<close>, \<open>{success: true, message,
  hasCredentials}\<close>, and \<open>{error, details}\<close> with \<open>details\<close> optional.
\<close>

datatype credentials_payload =
    Status credentials_status
  | Success string bool
  | Problem string "string option"

definition credentials_GET :: "server_state \<Rightarrow> credentials_payload reply" where
  "credentials_GET st =
     \<lparr> code = 200,
       payload = Status
         \<lparr> hasCredentials = (env_truthy (BLUMIRA_CLIENT_ID (proc_env st))
                             \<and> env_truthy (BLUMIRA_CLIENT_SECRET (proc_env st))),
           hasClientId = env_truthy (BLUMIRA_CLIENT_ID (proc_env st)),
           hasClientSecret = env_truthy (BLUMIRA_CLIENT_SECRET (proc_env st)),
           clientIdLength = (case BLUMIRA_CLIENT_ID (proc_env st) of None \<Rightarrow> 0 | Some s \<Rightarrow> length s),
           clientSecretLength =
             (case BLUMIRA_CLIENT_SECRET (proc_env st) of None \<Rightarrow> 0 | Some s \<Rightarrow> length s) \<rparr> \<rparr>"

text \<open>
  The \<open>try\<close> body of \<open>POST\<close>. \<open>request\<close> is the outcome of \<open>request.json()\<close>, \<open>authRes\<close>
  that of the validation call to the token endpoint. Interpolation into the file lines
  and assignment to \<open>process.env\<close> both convert the value to a string; the environment
  keeps it up to its first \<open>U+0000\<close>.
\<close>

definition credentials_POST_try :: "server_state \<Rightarrow> js_error + jsval \<Rightarrow> fetch_result \<Rightarrow>
    js_error + server_state \<times> credentials_payload reply" where
  "credentials_POST_try st request authRes =
     bind request (\<lambda>body.
     bind (get_prop body ''clientId'') (\<lambda>clientId.
     bind (get_prop body ''clientSecret'') (\<lambda>clientSecret.
       if \<not> js_truthy clientId \<or> \<not> js_truthy clientSecret
       then Inr (st, \<lparr> code = 400,
                       payload = Problem ''Client ID and Client Secret are required'' None \<rparr>)
       else
         case authRes of
           Rejected e \<Rightarrow> Inl e
         | Resolved authResponse \<Rightarrow>
             if \<not> ok authResponse
             then Inr (st, \<lparr> code = 401,
                             payload = Problem ''Invalid credentials''
                               (Some (''Authentication failed: '' @ body_text authResponse)) \<rparr>)
             else
               bind (body_json authResponse) (\<lambda>authData.
               bind (get_prop authData ''access_token'') (\<lambda>access_token.
                 if \<not> js_truthy access_token
                 then Inr (st, \<lparr> code = 401,
                                 payload = Problem ''Invalid response from authentication server''
                                   None \<rparr>)
                 else
                   bind (if existsSync (disk st) then readFileSync (disk st) else Inr [])
                     (\<lambda>envContent.
                   bind (writeFileSync (disk st)
                           (join_with [newline]
                              (remove_credentials envContent
                               @ [''BLUMIRA_CLIENT_ID='' @ to_string clientId,
                                  ''BLUMIRA_CLIENT_SECRET='' @ to_string clientSecret])))
                     (\<lambda>fs'.
                     Inr (\<lparr> proc_env =
                             \<lparr> BLUMIRA_CLIENT_ID = Some (env_value (to_string clientId)),
                               BLUMIRA_CLIENT_SECRET =
                                 Some (env_value (to_string clientSecret)) \<rparr>,
                             disk = fs' \<rparr>,
                          \<lparr> code = 200,
                            payload = Success ''Credentials updated successfully'' True \<rparr>))))))))"

text \<open>
  \<open>POST\<close>: the new state and the reply. When something is thrown, nothing has been
  changed yet: the write is the first effect and the last statement that can throw.
\<close>

definition credentials_POST :: "server_state \<Rightarrow> js_error + jsval \<Rightarrow> fetch_result \<Rightarrow>
    server_state \<times> credentials_payload reply" where
  "credentials_POST st request authRes =
     (case credentials_POST_try st request authRes of
        Inr r \<Rightarrow> r
      | Inl e \<Rightarrow> (st, \<lparr> code = 500, payload = Problem ''Failed to update credentials'' None \<rparr>))"

definition credentials_DELETE_try ::
    "server_state \<Rightarrow> js_error + server_state \<times> credentials_payload reply" where
  "credentials_DELETE_try st =
     bind (if existsSync (disk st)
           then bind (readFileSync (disk st)) (\<lambda>envContent.
                  writeFileSync (disk st) (join_with [newline] (remove_credentials envContent)))
           else Inr (disk st))
       (\<lambda>fs'.
         Inr (\<lparr> proc_env = \<lparr> BLUMIRA_CLIENT_ID = None, BLUMIRA_CLIENT_SECRET = None \<rparr>, disk = fs' \<rparr>,
              \<lparr> code = 200, payload = Success ''Credentials removed successfully'' False \<rparr>))"

definition credentials_DELETE :: "server_state \<Rightarrow> server_state \<times> credentials_payload reply" where
  "credentials_DELETE st =
     (case credentials_DELETE_try st of
        Inr r \<Rightarrow> r
      | Inl e \<Rightarrow> (st, \<lparr> code = 500, payload = Problem ''Failed to remove credentials'' None \<rparr>))"


section \<open>Vocabulary of the properties\<close>

text \<open>A value that is a number, and the number it is.\<close>

fun is_num :: "jsval option \<Rightarrow> bool" where
  "is_num (Some (JNum n)) = True"
| "is_num v = False"

fun num_of :: "jsval option \<Rightarrow> int" where
  "num_of (Some (JNum n)) = n"
| "num_of v = 0"

text \<open>
  The summary fields that are not counts made by the aggregator itself hold numbers: the
  length of the keys payload and the three fields merged from the account details.
\<close>

definition numeric_fields :: "organization \<Rightarrow> bool" where
  "numeric_fields org =
     (is_num (agentKeyCount (details org))
      \<and> is_num (Some (agent_count_available (details org)))
      \<and> is_num (Some (agent_count_used (details org)))
      \<and> is_num (Some (user_count (details org))))"

text \<open>
  A field holds an integer in every summary of a list, and the absolute values add up to
  at most \<open>2^53\<close>: then every partial sum is a double and no addition rounds.
\<close>

definition exact_ints :: "(organization \<Rightarrow> jsval option) \<Rightarrow> organization list \<Rightarrow> bool" where
  "exact_ints g orgs =
     (list_all (\<lambda>org. is_num (g org)) orgs
      \<and> sum_list (map (\<lambda>org. \<bar>num_of (g org)\<bar>) orgs) \<le> 2 ^ 53)"

subsection \<open>Sample exchanges\<close>

definition json_response :: "nat \<Rightarrow> jsval \<Rightarrow> fetch_result" where
  "json_response s b =
     Resolved \<lparr> status = s, statusText = [], body_text = [], body_json = Inr b \<rparr>"

definition envelope :: "jsval \<Rightarrow> jsval" where
  "envelope d = JObj [(''status'', JStr ''OK''), (''data'', d)]"

definition sample_env :: process_env where
  "sample_env = \<lparr> BLUMIRA_CLIENT_ID = Some ''id'', BLUMIRA_CLIENT_SECRET = Some ''secret'' \<rparr>"

definition sample_token :: fetch_result where
  "sample_token = json_response 200 (JObj [(''access_token'', JStr ''t'')])"

definition sample_fetches :: org_fetches where
  "sample_fetches =
     \<lparr> details_res = json_response 200 (envelope (JObj [(''license'', JStr ''FREE'')])),
       devices_res = json_response 200 (envelope (JArr [])),
       keys_res = json_response 200 (envelope (JArr [])),
       findings_res = json_response 200
         (envelope (JArr [JObj [(''priority'', JNum 1), (''status_name'', JStr ''Open'')]])) \<rparr>"

definition sample_upstream :: "nat \<Rightarrow> org_fetches" where
  "sample_upstream i = sample_fetches"

definition sample_accounts :: fetch_result where
  "sample_accounts =
     json_response 200
       (envelope (JArr [JObj [(''account_id'', JStr ''a''), (''open_findings'', JNum 0)],
                        JObj [(''account_id'', JStr ''b''), (''open_findings'', JNum 7)]]))"

definition sample_org :: "nat \<Rightarrow> int \<Rightarrow> organization" where
  "sample_org n k =
     \<lparr> account = JObj [],
       details = default_details\<lparr> findingsCount := n, user_count := JNum k \<rparr>,
       org_id = None, org_name = None, open_findings = JNum 0 \<rparr>"

definition string_count_fetches :: org_fetches where
  "string_count_fetches =
     sample_fetches\<lparr> details_res :=
       json_response 200 (envelope (JObj [(''user_count'', JStr ''5'')])) \<rparr>"

definition string_count_org :: organization where
  "string_count_org =
     \<lparr> account = JObj [], details = fetchAccountDetails string_count_fetches,
       org_id = None, org_name = None, open_findings = JNum 0 \<rparr>"

definition failed_response :: "nat \<Rightarrow> fetch_result" where
  "failed_response s =
     Resolved \<lparr> status = s, statusText = [], body_text = [],
                body_json = Inl (SyntaxError ''Unexpected token'') \<rparr>"

subsection \<open>Failing fetches, substrings\<close>


text \<open>\<open>s.includes(sub)\<close>\<close>

definition str_includes :: "string \<Rightarrow> string \<Rightarrow> bool" where
  "str_includes s sub =
     list_ex (\<lambda>i. take (length sub) (drop i s) = sub) [0..<Suc (length s)]"

subsection \<open>Device status\<close>

text \<open>
  \<open>getDeviceStatusBadge\<close> of the dashboard component: the label shown for one device,
  chosen by the precedence excluded, isolated, sleeping, online.
\<close>

datatype badge = Excluded | Isolated | Sleeping | Online

definition getDeviceStatusBadge :: "jsval \<Rightarrow> badge" where
  "getDeviceStatusBadge device =
     (if js_truthy (js_prop device ''is_excluded'') then Excluded
      else if js_truthy (js_prop device ''is_isolated'') then Isolated
      else if js_truthy (js_prop device ''is_sleeping'') then Sleeping
      else Online)"

text \<open>The number of devices of a list that carry a given label.\<close>

definition badge_count :: "badge \<Rightarrow> jsval list \<Rightarrow> nat" where
  "badge_count b devices = length (filter (\<lambda>device. getDeviceStatusBadge device = b) devices)"

text \<open>\<open>device.k\<close> as a condition, on a device that is not \<open>null\<close>.\<close>

definition flag :: "string \<Rightarrow> jsval \<Rightarrow> bool" where
  "flag k device = js_truthy (js_prop device k)"

definition device_fetches :: "jsval list \<Rightarrow> org_fetches" where
  "device_fetches devices =
     sample_fetches\<lparr> devices_res := json_response 200 (envelope (JArr devices)) \<rparr>"

definition excluded_isolated_device :: jsval where
  "excluded_isolated_device =
     JObj [(''is_excluded'', JBool True), (''is_isolated'', JBool True),
           (''is_sleeping'', JBool False), (''alive'', JStr ''2024-01-01T00:00:00Z'')]"

subsection \<open>Sample bodies, organizations and server state\<close>

definition bare_accounts :: fetch_result where
  "bare_accounts = json_response 200 (JArr [JObj [(''account_id'', JStr ''a'')]])"

definition details_body :: jsval where
  "details_body = JObj [(''license'', JStr ''FREE''), (''user_count'', JNum 3)]"

text \<open>The key under which the reducer counts an organization: its license as a property key.\<close>

definition license_key :: "organization \<Rightarrow> string" where
  "license_key org = js_to_string (license (details org))"

definition licensed :: "string \<Rightarrow> organization" where
  "licensed l =
     \<lparr> account = JObj [], details = default_details\<lparr> license := JStr l \<rparr>,
       org_id = None, org_name = None, open_findings = JNum 0 \<rparr>"

definition sample_state :: server_state where
  "sample_state =
     \<lparr> proc_env = \<lparr> BLUMIRA_CLIENT_ID = None, BLUMIRA_CLIENT_SECRET = None \<rparr>,
       disk = \<lparr> env_file = Some (''PORT=3000'' @ [newline] @ ''BLUMIRA_CLIENT_ID=old''),
                read_error = None, write_error = None \<rparr> \<rparr>"

definition read_only_state :: server_state where
  "read_only_state =
     sample_state\<lparr> disk := (disk sample_state)\<lparr> write_error :=
       Some (Error ''EROFS: read-only file system'') \<rparr> \<rparr>"

definition configured_read_only_state :: server_state where
  "configured_read_only_state =
     read_only_state\<lparr> proc_env :=
       \<lparr> BLUMIRA_CLIENT_ID = Some ''abc'', BLUMIRA_CLIENT_SECRET = Some ''s3cret'' \<rparr> \<rparr>"

definition nul_request :: jsval where
  "nul_request = JObj [(''clientId'', JStr [CHR 0x00]), (''clientSecret'', JStr ''s3cret'')]"

definition sample_request :: jsval where
  "sample_request = JObj [(''clientId'', JStr ''abc''), (''clientSecret'', JStr ''s3cret'')]"

definition no_credentials :: credentials_status where
  "no_credentials =
     \<lparr> hasCredentials = False, hasClientId = False, hasClientSecret = False,
       clientIdLength = 0, clientSecretLength = 0 \<rparr>"

subsection \<open>Traces\<close>















section \<open>Verification\<close>

lemmas js_defs = json_response_def envelope_def sample_env_def sample_token_def
  sample_fetches_def sample_upstream_def sample_accounts_def organizations_GET_def organizations_try_def
  getAccessToken_def bind_def env_truthy_def ok_def get_prop_def obj_get_def
  object_prototype_def object_prototype_methods_def accounts_payload_def as_array_def
  accountsWithDetails_def enumerate_eq_zip org_summary_def fetchAccountDetails_def summary_def
  fetch_details_def fetch_list_def is_online_def has_flag_def prop_is_def js_or_def

subsection \<open>Sequencing\<close>

lemma bind_Inr_iff: "bind m f = Inr y \<longleftrightarrow> (\<exists>x. m = Inr x \<and> f x = Inr y)"
  by (cases m) (simp_all add: bind_def)

lemma as_array_Inr: "as_array v = Inr xs \<longleftrightarrow> v = JArr xs"
  by (cases v) (simp_all add: as_array_def)

lemma promise_all_Inr:
  "promise_all ps = Inr xs \<Longrightarrow>
     length xs = length ps \<and> (\<forall>i < length ps. ps ! i = Inr (xs ! i))"
proof (induction ps arbitrary: xs)
  case Nil
  then show ?case by simp
next
  case (Cons p ps)
  from Cons.prems obtain x ys where p: "p = Inr x" and ys: "promise_all ps = Inr ys"
    and xs: "xs = x # ys"
    by (auto simp: bind_Inr_iff)
  from Cons.IH [OF ys] show ?case
    by (auto simp: p xs nth_Cons split: nat.splits)
qed

lemma accountsWithDetails_nth:
  assumes "accountsWithDetails upstream accts = Inr orgs"
  shows "length orgs = length accts"
    and "i < length accts \<Longrightarrow> org_summary (upstream i) (accts ! i) = Inr (orgs ! i)"
proof -
  let ?ps = "map (\<lambda>(i, acct). org_summary (upstream i) acct) (enumerate 0 accts)"
  from assms have all: "promise_all ?ps = Inr orgs"
    by (simp add: accountsWithDetails_def)
  from promise_all_Inr [OF all] show "length orgs = length accts" by simp
  assume i: "i < length accts"
  with promise_all_Inr [OF all] have "?ps ! i = Inr (orgs ! i)" by simp
  with i show "org_summary (upstream i) (accts ! i) = Inr (orgs ! i)"
    by (simp add: nth_enumerate_eq)
qed

subsection \<open>Shape of a successful request\<close>

lemma organizations_try_Inr:
  assumes "organizations_try penv tokenRes accountsRes upstream now = Inr body"
  shows "\<exists>token r data accts m.
           getAccessToken penv tokenRes = Inr token \<and>
           accountsRes = Resolved r \<and> ok r \<and> body_json r = Inr data \<and>
           accounts_payload data = Inr (JArr accts, m) \<and>
           accountsWithDetails upstream accts = Inr (organizations body) \<and>
           meta body = m \<and> totals body = calc_totals (organizations body)"
proof -
  from assms obtain token where token: "getAccessToken penv tokenRes = Inr token"
    and rest: "(case accountsRes of
         Rejected e \<Rightarrow> Inl e
       | Resolved accountsResponse \<Rightarrow>
           if \<not> ok accountsResponse
           then Inl (Error (''Failed to fetch MSP accounts: ''
                             @ string_of_nat (status accountsResponse)))
           else
             bind (body_json accountsResponse) (\<lambda>accountsData.
             bind (accounts_payload accountsData) (\<lambda>(accounts, accountsMeta).
             bind (as_array accounts) (\<lambda>accts.
             bind (accountsWithDetails upstream accts) (\<lambda>orgs.
               Inr \<lparr> organizations = orgs,
                     meta = accountsMeta,
                     totals = calc_totals orgs,
                     debug = \<lparr> organizationCount = length orgs,
                               debug_totals = calc_totals orgs,
                               timestamp = now \<rparr> \<rparr>))))) = Inr body"
    unfolding organizations_try_def bind_Inr_iff by blast
  from rest obtain r where r: "accountsRes = Resolved r"
    by (cases accountsRes) simp_all
  from rest r have okr: "ok r" by (simp split: if_splits)
  from rest r okr obtain data accounts m accts orgs where
      "body_json r = Inr data" "accounts_payload data = Inr (accounts, m)"
      "as_array accounts = Inr accts" "accountsWithDetails upstream accts = Inr orgs"
      "body = \<lparr> organizations = orgs, meta = m, totals = calc_totals orgs,
                debug = \<lparr> organizationCount = length orgs, debug_totals = calc_totals orgs,
                          timestamp = now \<rparr> \<rparr>"
    by (auto simp: bind_Inr_iff)
  with token r okr show ?thesis by (auto simp: as_array_Inr)
qed

lemma organizations_GET_200:
  "organizations_GET penv tokenRes accountsRes upstream now
       = \<lparr> code = 200, payload = Organizations body \<rparr>
     \<longleftrightarrow> organizations_try penv tokenRes accountsRes upstream now = Inr body"
  by (auto simp: organizations_GET_def split: sum.splits)

lemma org_summary_Inr:
  "org_summary f acct = Inr org \<Longrightarrow>
     account org = acct \<and> details org = fetchAccountDetails f \<and>
     open_findings org
       = js_or (js_prop acct ''open_findings'')
           (JNum (int (openFindingsCount (fetchAccountDetails f))))"
  by (auto simp: org_summary_def bind_Inr_iff)

subsection \<open>Totals\<close>

lemma foldl_plus_sum_list:
  "foldl (\<lambda>sum org. sum + f org) (a::nat) orgs = a + sum_list (map f orgs)"
  by (induction orgs arbitrary: a) simp_all

lemma to_double_exact: "\<bar>n\<bar> \<le> 2 ^ 53 \<Longrightarrow> to_double n = JNum n"
  by (simp add: to_double_def nearest_double_def nat_le_iff)

lemma js_add_nums:
  assumes "\<bar>a\<bar> \<le> 2 ^ 53" and "\<bar>b\<bar> \<le> 2 ^ 53" and "\<bar>a + b\<bar> \<le> 2 ^ 53"
  shows "js_add (Some (JNum a)) (Some (JNum b)) = JNum (a + b)"
  using assms by (simp add: js_add_def add_numbers_def to_double_exact)

lemma is_num_iff: "is_num v \<longleftrightarrow> v = Some (JNum (num_of v))"
  by (cases v rule: is_num.cases) simp_all

lemma foldl_js_add_sum_list:
  assumes "list_all (\<lambda>org. is_num (g org)) orgs"
    and "\<bar>a\<bar> + sum_list (map (\<lambda>org. \<bar>num_of (g org)\<bar>) orgs) \<le> 2 ^ 53"
  shows "foldl (\<lambda>sum org. js_add (Some sum) (g org)) (JNum a) orgs
           = JNum (a + sum_list (map (\<lambda>org. num_of (g org)) orgs))"
  using assms
proof (induction orgs arbitrary: a)
  case Nil
  show ?case by simp
next
  case (Cons org orgs)
  let ?n = "num_of (g org)"
  from Cons.prems(1) have n: "g org = Some (JNum ?n)"
    using is_num_iff [of "g org"] by simp
  from Cons.prems(1) have rest: "list_all (\<lambda>org. is_num (g org)) orgs" by simp
  have nonneg: "0 \<le> sum_list (map (\<lambda>org. \<bar>num_of (g org)\<bar>) orgs)"
    by (rule sum_list_nonneg) auto
  from Cons.prems(2) nonneg have bounds:
      "\<bar>a\<bar> \<le> 2 ^ 53" "\<bar>?n\<bar> \<le> 2 ^ 53" "\<bar>a + ?n\<bar> \<le> 2 ^ 53"
      "\<bar>a + ?n\<bar> + sum_list (map (\<lambda>org. \<bar>num_of (g org)\<bar>) orgs) \<le> 2 ^ 53"
    by simp_all
  have "js_add (Some (JNum a)) (g org) = JNum (a + ?n)"
    using js_add_nums [OF bounds(1-3)] n by simp
  then show ?case using Cons.IH [OF rest bounds(4)] by (simp add: add.assoc)
qed

lemma total_of_exact_ints:
  assumes "exact_ints g orgs"
  shows "foldl (\<lambda>sum org. js_add (Some sum) (g org)) (JNum 0) orgs
           = JNum (sum_list (map (\<lambda>org. num_of (g org)) orgs))"
  using assms foldl_js_add_sum_list [of g orgs 0] by (simp add: exact_ints_def)

text \<open>
  The summaries the aggregator builds have numeric fields whenever the keys payload is a
  list and the three merged detail fields are numbers or absent.
\<close>

lemma js_or_num:
  "(case v of None \<Rightarrow> True | Some x \<Rightarrow> is_num (Some x)) \<Longrightarrow> is_num (Some (js_or v (JNum 0)))"
  by (cases v rule: is_num.cases) (simp_all add: js_or_def)

lemma summary_numeric:
  assumes "summary d devs keys fnds = Inr s"
    and "fst keys = JArr ks"
    and "case js_prop d ''agent_count_available'' of None \<Rightarrow> True | Some x \<Rightarrow> is_num (Some x)"
    and "case js_prop d ''agent_count_used'' of None \<Rightarrow> True | Some x \<Rightarrow> is_num (Some x)"
    and "case js_prop d ''user_count'' of None \<Rightarrow> True | Some x \<Rightarrow> is_num (Some x)"
  shows "is_num (agentKeyCount s) \<and> is_num (Some (agent_count_available s))
       \<and> is_num (Some (agent_count_used s)) \<and> is_num (Some (user_count s))"
proof -
  from assms(1) have
      "agentKeyCount s = js_length (fst keys)"
      "agent_count_available s = js_or (js_prop d ''agent_count_available'') (JNum 0)"
      "agent_count_used s = js_or (js_prop d ''agent_count_used'') (JNum 0)"
      "user_count s = js_or (js_prop d ''user_count'') (JNum 0)"
    unfolding summary_def bind_Inr_iff by auto
  with assms(2) js_or_num [OF assms(3)] js_or_num [OF assms(4)] js_or_num [OF assms(5)]
  show ?thesis by simp
qed

lemma well_formed_summary_numeric:
  assumes "org_summary f acct = Inr org"
    and "fst (fetch_list (keys_res f)) = JArr ks"
    and "case js_prop (fetch_details (details_res f)) ''agent_count_available'' of
           None \<Rightarrow> True | Some x \<Rightarrow> is_num (Some x)"
    and "case js_prop (fetch_details (details_res f)) ''agent_count_used'' of
           None \<Rightarrow> True | Some x \<Rightarrow> is_num (Some x)"
    and "case js_prop (fetch_details (details_res f)) ''user_count'' of
           None \<Rightarrow> True | Some x \<Rightarrow> is_num (Some x)"
  shows "numeric_fields org"
proof -
  from org_summary_Inr [OF assms(1)] have d: "details org = fetchAccountDetails f" by simp
  show ?thesis
  proof (cases "summary (fetch_details (details_res f)) (fetch_list (devices_res f))
             (fetch_list (keys_res f)) (fetch_list (findings_res f))")
    case (Inl e)
    then show ?thesis by (simp add: numeric_fields_def d fetchAccountDetails_def default_details_def)
  next
    case (Inr s)
    from summary_numeric [OF Inr assms(2-5)] Inr show ?thesis
      by (simp add: numeric_fields_def d fetchAccountDetails_def)
  qed
qed

text \<open>
  C6, as amended. Over any list of organization summaries, the eight totals of counts
  that the aggregator makes itself (devices, findings, critical and open findings, and
  the four device-status counts) are the sums of the corresponding field over the list;
  in particular \<open>totalFindings\<close> is the sum of \<open>findingsCount\<close>. Each of the other four
  totals (agent keys, agent capacity available and used, user counts) is the sum of its
  field when that field holds an integer in every summary and the absolute values add up
  to at most \<open>2^53\<close>, the range in which the addition of doubles is exact.
\<close>

theorem totals_elementwise_sums:
  "totalAgentDevices (calc_totals orgs)
     = sum_list (map (\<lambda>org. agentDeviceCount (details org)) orgs)
   \<and> totalFindings (calc_totals orgs)
       = sum_list (map (\<lambda>org. findingsCount (details org)) orgs)
   \<and> totalCriticalFindings (calc_totals orgs)
       = sum_list (map (\<lambda>org. criticalFindingsCount (details org)) orgs)
   \<and> totalOpenFindings (calc_totals orgs)
       = sum_list (map (\<lambda>org. openFindingsCount (details org)) orgs)
   \<and> totalOnlineDevices (calc_totals orgs)
       = sum_list (map (\<lambda>org. onlineDevices (details org)) orgs)
   \<and> totalSleepingDevices (calc_totals orgs)
       = sum_list (map (\<lambda>org. sleepingDevices (details org)) orgs)
   \<and> totalIsolatedDevices (calc_totals orgs)
       = sum_list (map (\<lambda>org. isolatedDevices (details org)) orgs)
   \<and> totalExcludedDevices (calc_totals orgs)
       = sum_list (map (\<lambda>org. excludedDevices (details org)) orgs)
   \<and> (exact_ints (\<lambda>org. agentKeyCount (details org)) orgs \<longrightarrow>
        totalAgentKeys (calc_totals orgs)
          = JNum (sum_list (map (\<lambda>org. num_of (agentKeyCount (details org))) orgs)))
   \<and> (exact_ints (\<lambda>org. Some (agent_count_available (details org))) orgs \<longrightarrow>
        totalAgentCountAvailable (calc_totals orgs)
          = JNum (sum_list (map (\<lambda>org. num_of (Some (agent_count_available (details org)))) orgs)))
   \<and> (exact_ints (\<lambda>org. Some (agent_count_used (details org))) orgs \<longrightarrow>
        totalAgentCountUsed (calc_totals orgs)
          = JNum (sum_list (map (\<lambda>org. num_of (Some (agent_count_used (details org)))) orgs)))
   \<and> (exact_ints (\<lambda>org. Some (user_count (details org))) orgs \<longrightarrow>
        totalUserCount (calc_totals orgs)
          = JNum (sum_list (map (\<lambda>org. num_of (Some (user_count (details org)))) orgs)))"
  unfolding calc_totals_def
  by (simp add: foldl_plus_sum_list total_of_exact_ints)

theorem totals_elementwise_sums_witness:
  "exact_ints (\<lambda>org. Some (user_count (details org))) [sample_org 2 5, sample_org 3 7]
   \<and> exact_ints (\<lambda>org. agentKeyCount (details org)) [sample_org 2 5, sample_org 3 7]
   \<and> totalFindings (calc_totals [sample_org 2 5, sample_org 3 7]) = 5
   \<and> totalUserCount (calc_totals [sample_org 2 5, sample_org 3 7]) = JNum 12
   \<and> totalAgentKeys (calc_totals [sample_org 2 5, sample_org 3 7]) = JNum 0"
proof -
  have h: "exact_ints (\<lambda>org. Some (user_count (details org))) [sample_org 2 5, sample_org 3 7]"
      "exact_ints (\<lambda>org. agentKeyCount (details org)) [sample_org 2 5, sample_org 3 7]"
    by (simp_all add: exact_ints_def sample_org_def default_details_def)
  show ?thesis
    using h totals_elementwise_sums [of "[sample_org 2 5, sample_org 3 7]"]
    by (simp add: sample_org_def default_details_def)
qed

text \<open>
  C6 as stated fails on the four totals that add values taken from upstream. A user count
  that arrives as the string \<open>"5"\<close> is kept by the aggregator and concatenated by the
  reducer; and the user counts \<open>2^53\<close> and \<open>1\<close> add up to \<open>2^53\<close>.
\<close>

theorem totals_not_always_sums:
  "user_count (details string_count_org) = JStr ''5''
   \<and> totalUserCount (calc_totals [string_count_org, sample_org 0 7]) = JStr ''057''
   \<and> totalUserCount (calc_totals [sample_org 0 9007199254740992, sample_org 0 1])
       = JNum 9007199254740992
   \<and> totalUserCount (calc_totals [sample_org 0 9007199254740992, sample_org 0 1])
       \<noteq> JNum (9007199254740992 + 1)"
  by (simp add: calc_totals_def sample_org_def default_details_def string_count_org_def
        string_count_fetches_def js_defs js_add_def add_numbers_def to_double_def
        nearest_double_def to_string_def number_to_string_def number_text_def digit_char_def)

subsection \<open>Open findings of an organization\<close>

text \<open>
  C10. In a successful response, the \<open>open_findings\<close> field of the summary at position
  \<open>i\<close> is the \<open>open_findings\<close> value of the \<open>i\<close>-th account of the accounts list when that
  value is truthy, and otherwise the \<open>openFindingsCount\<close> computed from that account's
  own findings fetch. In particular an upstream value of \<open>0\<close> is replaced by the
  computed count.
\<close>

theorem open_findings_fallback:
  assumes "organizations_GET penv tokenRes accountsRes upstream now
             = \<lparr> code = 200, payload = Organizations body \<rparr>"
    and "i < length (organizations body)"
  shows "\<exists>r data accts m.
           accountsRes = Resolved r \<and> body_json r = Inr data
           \<and> accounts_payload data = Inr (JArr accts, m)
           \<and> length accts = length (organizations body)
           \<and> account (organizations body ! i) = accts ! i
           \<and> details (organizations body ! i) = fetchAccountDetails (upstream i)
           \<and> open_findings (organizations body ! i)
               = (case js_prop (accts ! i) ''open_findings'' of
                    None \<Rightarrow> JNum (int (openFindingsCount (fetchAccountDetails (upstream i))))
                  | Some v \<Rightarrow>
                      if js_truthy (Some v) then v
                      else JNum (int (openFindingsCount (fetchAccountDetails (upstream i)))))
           \<and> (js_prop (accts ! i) ''open_findings'' = Some (JNum 0) \<longrightarrow>
                open_findings (organizations body ! i)
                  = JNum (int (openFindingsCount (fetchAccountDetails (upstream i)))))"
proof -
  from assms(1) have "organizations_try penv tokenRes accountsRes upstream now = Inr body"
    by (simp add: organizations_GET_200)
  from organizations_try_Inr [OF this] obtain r data accts m where
      r: "accountsRes = Resolved r" "body_json r = Inr data"
        "accounts_payload data = Inr (JArr accts, m)"
      and orgs: "accountsWithDetails upstream accts = Inr (organizations body)"
    by blast
  have len: "length (organizations body) = length accts"
    by (rule accountsWithDetails_nth(1) [OF orgs])
  with assms(2) have i: "i < length accts" by simp
  have "org_summary (upstream i) (accts ! i) = Inr (organizations body ! i)"
    by (rule accountsWithDetails_nth(2) [OF orgs i])
  from org_summary_Inr [OF this] r len show ?thesis
    by (auto simp: js_or_def split: option.splits)
qed

theorem open_findings_fallback_witness:
  "\<exists>body. organizations_GET sample_env sample_token sample_accounts sample_upstream ''now''
             = \<lparr> code = 200, payload = Organizations body \<rparr>
         \<and> length (organizations body) = 2
         \<and> open_findings (organizations body ! 0) = JNum 1
         \<and> open_findings (organizations body ! 1) = JNum 7"
proof -
  obtain body where b:
    "organizations_GET sample_env sample_token sample_accounts sample_upstream ''now''
       = \<lparr> code = 200, payload = Organizations body \<rparr>"
    by (simp add: js_defs)
  have n: "length (organizations body) = 2"
    using b by (auto simp add: js_defs)
  have "open_findings (organizations body ! 0) = JNum 1"
    using open_findings_fallback [OF b, of 0] n by (auto simp add: js_defs)
  moreover have "open_findings (organizations body ! 1) = JNum 7"
    using open_findings_fallback [OF b, of 1] n by (auto simp add: js_defs)
  ultimately show ?thesis using b n by blast
qed


subsection \<open>A failing findings fetch\<close>













subsection \<open>A failing accounts fetch\<close>

lemma str_includes_suffix: "str_includes (p @ s) s"
  unfolding str_includes_def list_ex_iff
  by (rule bexI [where x = "length p"]) simp_all

text \<open>
  C5. Once the token has been acquired, an accounts-list response with a status outside
  200..299 makes the route answer with status 500 and the body \<open>{error, timestamp}\<close>,
  whose message ends with the decimal upstream status and so contains it. The payload is
  the error body: no organizations are returned.
\<close>

theorem accounts_failure_gives_500:
  assumes "getAccessToken penv tokenRes = Inr token"
    and "accountsRes = Resolved r"
    and "\<not> ok r"
  shows "organizations_GET penv tokenRes accountsRes upstream now
           = \<lparr> code = 500,
               payload = Failure \<lparr> error = ''Failed to fetch MSP accounts: '' @ string_of_nat (status r),
                                   error_timestamp = now \<rparr> \<rparr>
         \<and> str_includes (''Failed to fetch MSP accounts: '' @ string_of_nat (status r))
               (string_of_nat (status r))"
  using assms str_includes_suffix [of "''Failed to fetch MSP accounts: ''" "string_of_nat (status r)"]
  by (simp add: organizations_GET_def organizations_try_def bind_def)

theorem accounts_failure_gives_500_witness:
  "getAccessToken sample_env sample_token = Inr (Some (JStr ''t''))
   \<and> \<not> ok \<lparr> status = 503, statusText = [], body_text = [], body_json = Inl (SyntaxError ''Unexpected token'') \<rparr>
   \<and> organizations_GET sample_env sample_token (failed_response 503) sample_upstream ''2024-01-01T00:00:00.000Z''
       = \<lparr> code = 500,
           payload = Failure \<lparr> error = ''Failed to fetch MSP accounts: 503'',
                               error_timestamp = ''2024-01-01T00:00:00.000Z'' \<rparr> \<rparr>"
proof -
  have t: "getAccessToken sample_env sample_token = Inr (Some (JStr ''t''))"
    by (simp add: js_defs)
  have n: "\<not> ok \<lparr> status = 503, statusText = [], body_text = [], body_json = Inl (SyntaxError ''Unexpected token'') \<rparr>"
    by (simp add: ok_def)
  have s: "string_of_nat 503 = ''503''" by (simp add: digit_char_def)
  show ?thesis
    using t n s accounts_failure_gives_500 [OF t _ n, of "failed_response 503" sample_upstream "''2024-01-01T00:00:00.000Z''"]
    by (simp add: failed_response_def)
qed


subsection \<open>Device status counts\<close>

lemma count_where_Inr:
  "count_where p xs = Inr n \<Longrightarrow> (\<forall>x \<in> set xs. p x = Inr (q x)) \<Longrightarrow> n = length (filter q xs)"
  by (induction xs arbitrary: n) (auto simp: bind_Inr_iff)

lemma count_where_nonnull:
  "count_where p xs = Inr n \<Longrightarrow> p JNull = Inl e \<Longrightarrow> JNull \<notin> set xs"
  by (induction xs arbitrary: n) (auto simp: bind_Inr_iff)

lemma has_flag_nonnull: "x \<noteq> JNull \<Longrightarrow> has_flag k x = Inr (flag k x)"
  by (simp add: has_flag_def get_prop_def bind_def flag_def)

lemma is_online_nonnull:
  "x \<noteq> JNull \<Longrightarrow> is_online x = Inr (\<not> flag ''is_sleeping'' x \<and> flag ''alive'' x)"
  by (simp add: is_online_def get_prop_def bind_def flag_def)

lemma has_flag_null: "has_flag k JNull = Inl (TypeError ''Cannot read properties of null'')"
  by (simp add: has_flag_def get_prop_def bind_def)

lemma summary_device_counts:
  assumes "summary d devs keys fnds = Inr s"
  shows "onlineDevices s = length (filter (\<lambda>x. \<not> flag ''is_sleeping'' x \<and> flag ''alive'' x) (agentDevices s))
       \<and> sleepingDevices s = length (filter (flag ''is_sleeping'') (agentDevices s))
       \<and> isolatedDevices s = length (filter (flag ''is_isolated'') (agentDevices s))
       \<and> excludedDevices s = length (filter (flag ''is_excluded'') (agentDevices s))
       \<and> agentDeviceCount s = length (agentDevices s)"
proof -
  from assms obtain devices online sleeping isolated excluded where
      c: "count_where is_online devices = Inr online"
         "count_where (has_flag ''is_sleeping'') devices = Inr sleeping"
         "count_where (has_flag ''is_isolated'') devices = Inr isolated"
         "count_where (has_flag ''is_excluded'') devices = Inr excluded"
      and s: "agentDevices s = devices" "onlineDevices s = online" "sleepingDevices s = sleeping"
         "isolatedDevices s = isolated" "excludedDevices s = excluded"
         "agentDeviceCount s = length devices"
    unfolding summary_def bind_Inr_iff by fastforce
  have nn: "JNull \<notin> set devices"
    by (rule count_where_nonnull [OF c(2) has_flag_null])
  have f: "\<forall>x \<in> set devices. has_flag k x = Inr (flag k x)" for k
  proof
    fix x assume "x \<in> set devices"
    with nn have "x \<noteq> JNull" by auto
    then show "has_flag k x = Inr (flag k x)" by (rule has_flag_nonnull)
  qed
  have o: "\<forall>x \<in> set devices.
             is_online x = Inr (\<not> flag ''is_sleeping'' x \<and> flag ''alive'' x)"
  proof
    fix x assume "x \<in> set devices"
    with nn have "x \<noteq> JNull" by auto
    then show "is_online x = Inr (\<not> flag ''is_sleeping'' x \<and> flag ''alive'' x)"
      by (rule is_online_nonnull)
  qed
  show ?thesis
    using count_where_Inr [OF c(1) o] count_where_Inr [OF c(2) f] count_where_Inr [OF c(3) f]
      count_where_Inr [OF c(4) f] s
    by simp
qed

text \<open>
  C1, as amended. In every summary the four device-status counts are independent counts
  over the summary's device list, one per condition: \<open>onlineDevices\<close> counts the devices
  with \<open>alive\<close> truthy and \<open>is_sleeping\<close> falsy, \<open>sleepingDevices\<close> those with
  \<open>is_sleeping\<close>, \<open>isolatedDevices\<close> those with \<open>is_isolated\<close>, \<open>excludedDevices\<close> those
  with \<open>is_excluded\<close>. So a device with \<open>is_excluded\<close> set is always counted in
  \<open>excludedDevices\<close>, and also in each other bucket whose own condition it meets. Only
  online and sleeping exclude each other: together they never exceed the device count.
\<close>

theorem device_counts_by_flag:
  "onlineDevices (fetchAccountDetails f)
     = length (filter (\<lambda>x. \<not> flag ''is_sleeping'' x \<and> flag ''alive'' x)
                 (agentDevices (fetchAccountDetails f)))
   \<and> sleepingDevices (fetchAccountDetails f)
       = length (filter (flag ''is_sleeping'') (agentDevices (fetchAccountDetails f)))
   \<and> isolatedDevices (fetchAccountDetails f)
       = length (filter (flag ''is_isolated'') (agentDevices (fetchAccountDetails f)))
   \<and> excludedDevices (fetchAccountDetails f)
       = length (filter (flag ''is_excluded'') (agentDevices (fetchAccountDetails f)))
   \<and> agentDeviceCount (fetchAccountDetails f) = length (agentDevices (fetchAccountDetails f))
   \<and> onlineDevices (fetchAccountDetails f) + sleepingDevices (fetchAccountDetails f)
       \<le> agentDeviceCount (fetchAccountDetails f)"
proof (cases "summary (fetch_details (details_res f)) (fetch_list (devices_res f))
             (fetch_list (keys_res f)) (fetch_list (findings_res f))")
  case (Inl e)
  then show ?thesis by (simp add: fetchAccountDetails_def default_details_def)
next
  case (Inr s)
  have "length (filter (\<lambda>x. \<not> flag ''is_sleeping'' x \<and> flag ''alive'' x) (agentDevices s))
          + length (filter (flag ''is_sleeping'') (agentDevices s)) \<le> length (agentDevices s)"
    using sum_length_filter_compl [of "flag ''is_sleeping''" "agentDevices s"]
      length_filter_le [of "\<lambda>x. flag ''alive'' x" "filter (\<lambda>x. \<not> flag ''is_sleeping'' x) (agentDevices s)"]
    by (simp add: conj_commute)
  with summary_device_counts [OF Inr] Inr show ?thesis
    by (simp add: fetchAccountDetails_def)
qed

lemmas flag_defs = flag_def device_fetches_def excluded_isolated_device_def
  getDeviceStatusBadge_def badge_count_def

theorem device_counts_by_flag_witness:
  "agentDevices (fetchAccountDetails (device_fetches [excluded_isolated_device])) = [excluded_isolated_device]
   \<and> flag ''is_excluded'' excluded_isolated_device
   \<and> flag ''is_isolated'' excluded_isolated_device
   \<and> excludedDevices (fetchAccountDetails (device_fetches [excluded_isolated_device])) = 1
   \<and> isolatedDevices (fetchAccountDetails (device_fetches [excluded_isolated_device])) = 1
   \<and> sleepingDevices (fetchAccountDetails (device_fetches [excluded_isolated_device])) = 0"
proof -
  have a: "agentDevices (fetchAccountDetails (device_fetches [excluded_isolated_device])) = [excluded_isolated_device]"
    by (simp add: js_defs flag_defs)
  have b: "flag ''is_excluded'' excluded_isolated_device" "flag ''is_isolated'' excluded_isolated_device"
     "\<not> flag ''is_sleeping'' excluded_isolated_device"
    by (simp_all add: js_defs flag_defs)
  show ?thesis
    using device_counts_by_flag [of "device_fetches [excluded_isolated_device]"] a b
    by simp
qed

text \<open>
  C1 as stated fails: one device that is excluded, isolated and alive is counted in three
  buckets, and \<open>isolatedDevices\<close> is not the number of devices whose status by precedence
  is isolated.
\<close>

theorem device_counts_not_partition:
  "getDeviceStatusBadge excluded_isolated_device = Excluded
   \<and> agentDeviceCount (fetchAccountDetails (device_fetches [excluded_isolated_device])) = 1
   \<and> excludedDevices (fetchAccountDetails (device_fetches [excluded_isolated_device])) = 1
   \<and> isolatedDevices (fetchAccountDetails (device_fetches [excluded_isolated_device])) = 1
   \<and> onlineDevices (fetchAccountDetails (device_fetches [excluded_isolated_device])) = 1
   \<and> isolatedDevices (fetchAccountDetails (device_fetches [excluded_isolated_device]))
       \<noteq> badge_count Isolated [excluded_isolated_device]"
  by (simp add: js_defs flag_defs)


subsection \<open>Finding counts\<close>

text \<open>
  In every summary, \<open>criticalFindingsCount\<close> counts the findings with \<open>priority === 1\<close> and
  \<open>openFindingsCount\<close> those with \<open>status_name === "Open"\<close>, compared as they are.
\<close>

lemma prop_is_nonnull: "x \<noteq> JNull \<Longrightarrow> prop_is k c x = Inr (js_prop x k = Some c)"
  by (simp add: prop_is_def get_prop_def bind_def)

lemma prop_is_null: "prop_is k c JNull = Inl (TypeError ''Cannot read properties of null'')"
  by (simp add: prop_is_def get_prop_def bind_def)

lemma summary_finding_counts:
  assumes "summary d devs keys fnds = Inr s"
  shows "findingsCount s = length (findings s)
       \<and> criticalFindingsCount s
           = length (filter (\<lambda>x. js_prop x ''priority'' = Some (JNum 1)) (findings s))
       \<and> openFindingsCount s
           = length (filter (\<lambda>x. js_prop x ''status_name'' = Some (JStr ''Open'')) (findings s))"
proof -
  from assms obtain fs critical opened where
      c: "count_where (prop_is ''priority'' (JNum 1)) fs = Inr critical"
         "count_where (prop_is ''status_name'' (JStr ''Open'')) fs = Inr opened"
      and s: "findings s = fs" "findingsCount s = length fs" "criticalFindingsCount s = critical"
         "openFindingsCount s = opened"
    unfolding summary_def bind_Inr_iff by fastforce
  have nn: "JNull \<notin> set fs"
    by (rule count_where_nonnull [OF c(1) prop_is_null])
  have p: "\<forall>x \<in> set fs. prop_is k v x = Inr (js_prop x k = Some v)" for k v
  proof
    fix x assume "x \<in> set fs"
    with nn have "x \<noteq> JNull" by auto
    then show "prop_is k v x = Inr (js_prop x k = Some v)" by (rule prop_is_nonnull)
  qed
  show ?thesis
    using count_where_Inr [OF c(1) p] count_where_Inr [OF c(2) p] s by simp
qed

lemma finding_counts:
  "findingsCount (fetchAccountDetails f) = length (findings (fetchAccountDetails f))
   \<and> criticalFindingsCount (fetchAccountDetails f)
       = length (filter (\<lambda>x. js_prop x ''priority'' = Some (JNum 1))
                   (findings (fetchAccountDetails f)))
   \<and> openFindingsCount (fetchAccountDetails f)
       = length (filter (\<lambda>x. js_prop x ''status_name'' = Some (JStr ''Open''))
                   (findings (fetchAccountDetails f)))"
proof (cases "summary (fetch_details (details_res f)) (fetch_list (devices_res f))
             (fetch_list (keys_res f)) (fetch_list (findings_res f))")
  case (Inl e)
  then show ?thesis by (simp add: fetchAccountDetails_def default_details_def)
next
  case (Inr s)
  with summary_finding_counts [OF Inr] show ?thesis by (simp add: fetchAccountDetails_def)
qed


subsection \<open>Envelope unwrapping\<close>

lemma js_prop_Some_nonnull: "js_prop v k = Some x \<Longrightarrow> v \<noteq> JNull"
  by (cases v) simp_all

text \<open>
  C2, as amended. For a 2xx response with a JSON body: when the body has \<open>status\<close> equal
  to \<open>"OK"\<close> and a truthy \<open>data\<close>, the payload is \<open>data\<close> for the account-details block,
  for the block shared by the devices, keys and findings fetches, and for the accounts
  list. When \<open>status\<close> is not \<open>"OK"\<close>, the account-details block takes the whole body as
  the payload, while the accounts list rejects a body other than \<open>null\<close> with the error
  \<open>Invalid response format from MSP accounts endpoint\<close>, and the route, once it holds a
  token, answers with status 500 and that message.
\<close>

theorem envelope_unwrapping:
  assumes "ok r" and "body_json r = Inr body"
  shows "(js_prop body ''status'' = Some (JStr ''OK'') \<and> js_prop body ''data'' = Some d
            \<and> js_truthy (Some d) \<longrightarrow>
          fetch_details (Resolved r) = d
          \<and> fetch_list (Resolved r) = (d, js_prop body ''meta'')
          \<and> accounts_payload body = Inr (d, js_prop body ''meta''))
       \<and> (js_prop body ''status'' \<noteq> Some (JStr ''OK'') \<longrightarrow>
          fetch_details (Resolved r) = body
          \<and> (body \<noteq> JNull \<longrightarrow>
               accounts_payload body
                 = Inl (Error ''Invalid response format from MSP accounts endpoint'')
               \<and> (getAccessToken penv tokenRes = Inr token \<longrightarrow>
                    organizations_GET penv tokenRes (Resolved r) upstream now
                      = \<lparr> code = 500,
                          payload = Failure
                            \<lparr> error = ''Invalid response format from MSP accounts endpoint'',
                              error_timestamp = now \<rparr> \<rparr>)))"
proof (intro conjI impI)
  assume a: "js_prop body ''status'' = Some (JStr ''OK'') \<and> js_prop body ''data'' = Some d
            \<and> js_truthy (Some d)"
  then have nn: "body \<noteq> JNull" using js_prop_Some_nonnull by blast
  from a nn assms show "fetch_details (Resolved r) = d"
    by (simp add: fetch_details_def get_prop_def)
  from a nn assms show "fetch_list (Resolved r) = (d, js_prop body ''meta'')"
    by (simp add: fetch_list_def get_prop_def)
  from a nn show "accounts_payload body = Inr (d, js_prop body ''meta'')"
    by (simp add: accounts_payload_def get_prop_def bind_def)
next
  assume b: "js_prop body ''status'' \<noteq> Some (JStr ''OK'')"
  with assms show "fetch_details (Resolved r) = body"
    by (simp add: fetch_details_def get_prop_def split: option.splits)
  assume "body \<noteq> JNull"
  with b show rejected:
    "accounts_payload body = Inl (Error ''Invalid response format from MSP accounts endpoint'')"
    by (simp add: accounts_payload_def get_prop_def bind_def split: option.splits)
  assume "getAccessToken penv tokenRes = Inr token"
  with rejected assms
  show "organizations_GET penv tokenRes (Resolved r) upstream now
          = \<lparr> code = 500,
              payload = Failure
                \<lparr> error = ''Invalid response format from MSP accounts endpoint'',
                  error_timestamp = now \<rparr> \<rparr>"
    by (simp add: organizations_GET_def organizations_try_def bind_def)
qed

theorem envelope_unwrapping_witness:
  "fetch_details (json_response 200 (envelope details_body)) = details_body
   \<and> fetch_list (json_response 200 (envelope details_body)) = (details_body, None)
   \<and> accounts_payload (envelope details_body) = Inr (details_body, None)
   \<and> fetch_details (json_response 200 details_body) = details_body
   \<and> accounts_payload details_body
       = Inl (Error ''Invalid response format from MSP accounts endpoint'')
   \<and> organizations_GET sample_env sample_token (json_response 200 details_body)
         sample_upstream ''now''
       = \<lparr> code = 500,
           payload = Failure
             \<lparr> error = ''Invalid response format from MSP accounts endpoint'',
               error_timestamp = ''now'' \<rparr> \<rparr>"
proof -
  have k: "ok \<lparr> status = 200, statusText = [], body_text = [], body_json = Inr b \<rparr>" for b
    by (simp add: ok_def)
  have p: "js_prop (envelope details_body) ''status'' = Some (JStr ''OK'')"
      "js_prop (envelope details_body) ''data'' = Some details_body"
      "js_prop (envelope details_body) ''meta'' = None"
      "js_truthy (Some details_body)"
      "js_prop details_body ''status'' \<noteq> Some (JStr ''OK'')"
      "details_body \<noteq> JNull"
    by (simp_all add: envelope_def details_body_def obj_get_def object_prototype_def
          object_prototype_methods_def)
  have t: "getAccessToken sample_env sample_token = Inr (Some (JStr ''t''))"
    by (simp add: js_defs)
  show ?thesis
    using envelope_unwrapping [OF k, of "envelope details_body" "envelope details_body" details_body]
      envelope_unwrapping [OF k, of details_body details_body details_body sample_env
        sample_token "Some (JStr ''t'')" sample_upstream "''now''"] p t
    by (simp add: json_response_def)
qed

text \<open>
  C2 as stated fails: a 2xx accounts-list response whose body is the bare list makes the
  route answer 500, and a 2xx devices response whose body is the bare list leaves the
  device list empty.
\<close>

theorem bare_payload_not_unwrapped:
  "organizations_GET sample_env sample_token bare_accounts sample_upstream ''now''
     = \<lparr> code = 500,
         payload = Failure \<lparr> error = ''Invalid response format from MSP accounts endpoint'',
                             error_timestamp = ''now'' \<rparr> \<rparr>
   \<and> fetch_list (json_response 200 (JArr [JObj [(''device_id'', JStr ''d'')]]))
       = (JArr [], Some JNull)"
  by (simp add: js_defs bare_accounts_def)


subsection \<open>A token response without a token\<close>

text \<open>
  C3. With credentials configured, on a 2xx token response whose body is not \<open>null\<close> and
  has no \<open>access_token\<close>, the acquirer of the dashboard route fails with an error, but the
  acquirer of the organizations route returns \<open>undefined\<close> to its caller.
\<close>

theorem missing_token_not_rejected:
  assumes "env_truthy (BLUMIRA_CLIENT_ID penv)" and "env_truthy (BLUMIRA_CLIENT_SECRET penv)"
    and "ok r" and "body_json r = Inr data" and "data \<noteq> JNull"
    and "js_prop data ''access_token'' = None"
  shows "getAccessToken penv (Resolved r) = Inr None
       \<and> dashboard_getAccessToken penv (Resolved r)
           = Inl (Error ''No access token received from authentication endpoint'')"
  using assms
  by (simp add: getAccessToken_def dashboard_getAccessToken_def bind_def get_prop_def)

theorem missing_token_not_rejected_witness:
  "getAccessToken sample_env (json_response 200 (JObj [(''token_type'', JStr ''Bearer'')])) = Inr None
   \<and> dashboard_getAccessToken sample_env (json_response 200 (JObj [(''token_type'', JStr ''Bearer'')]))
       = Inl (Error ''No access token received from authentication endpoint'')
   \<and> code (organizations_GET sample_env (json_response 200 (JObj [(''token_type'', JStr ''Bearer'')]))
              sample_accounts sample_upstream ''now'') = 200"
proof -
  have k: "ok \<lparr> status = 200, statusText = [], body_text = [],
                body_json = Inr (JObj [(''token_type'', JStr ''Bearer'')]) \<rparr>"
    by (simp add: ok_def)
  have e: "env_truthy (BLUMIRA_CLIENT_ID sample_env)" "env_truthy (BLUMIRA_CLIENT_SECRET sample_env)"
    by (simp_all add: sample_env_def env_truthy_def)
  have p: "js_prop (JObj [(''token_type'', JStr ''Bearer'')]) ''access_token'' = None"
    by (simp add: obj_get_def object_prototype_def object_prototype_methods_def)
  have g: "code (organizations_GET sample_env (json_response 200 (JObj [(''token_type'', JStr ''Bearer'')]))
              sample_accounts sample_upstream ''now'') = 200"
    by (simp add: js_defs)
  show ?thesis
    using missing_token_not_rejected [OF e k _ _ p] g
    by (simp add: json_response_def)
qed


subsection \<open>License histogram\<close>

lemma proto_key_not_inherited: "object_prototype k = None \<Longrightarrow> k \<noteq> ''__proto__''"
  by (auto simp: object_prototype_def)

lemma count_license_other:
  "license_key org \<noteq> k \<Longrightarrow> map_of (count_license acc org) k = map_of acc k"
  by (simp add: count_license_def obj_set_def license_key_def update_conv')

lemma count_license_same:
  assumes "object_prototype k = None" and "license_key org = k"
    and "map_of acc k = (if n = 0 then None else Some (JNum (int n)))"
    and "n < 2 ^ 53"
  shows "map_of (count_license acc org) k = Some (JNum (int (Suc n)))"
proof -
  have k: "js_to_string (license (details org)) = k" using assms(2) by (simp add: license_key_def)
  have old: "js_or (obj_get acc k) (JNum 0) = JNum (int n)"
    using assms(1,3) by (simp add: obj_get_def js_or_def)
  from assms(4) have "int n < 2 ^ 53" by simp
  then have "js_add (Some (JNum (int n))) (Some (JNum 1)) = JNum (int n + 1)"
    by (intro js_add_nums) simp_all
  with old have "js_add (Some (js_or (obj_get acc k) (JNum 0))) (Some (JNum 1)) = JNum (int (Suc n))"
    by (simp add: add.commute)
  then show ?thesis
    using proto_key_not_inherited [OF assms(1)]
    by (simp add: count_license_def obj_set_def k update_conv')
qed

lemma foldl_count_license:
  assumes "object_prototype k = None"
  shows "map_of acc k = (if n = 0 then None else Some (JNum (int n))) \<Longrightarrow>
         n + length orgs \<le> 2 ^ 53 \<Longrightarrow>
         map_of (foldl count_license acc orgs) k
           = (if n + length (filter (\<lambda>org. license_key org = k) orgs) = 0 then None
              else Some (JNum (int (n + length (filter (\<lambda>org. license_key org = k) orgs)))))"
proof (induction orgs arbitrary: acc n)
  case Nil
  then show ?case by simp
next
  case (Cons org orgs)
  from Cons.prems(2) have n: "n < 2 ^ 53" and rest: "n + length orgs \<le> 2 ^ 53"
    and rest': "Suc n + length orgs \<le> 2 ^ 53"
    by simp_all
  show ?case
  proof (cases "license_key org = k")
    case True
    have "map_of (count_license acc org) k = (if Suc n = 0 then None else Some (JNum (int (Suc n))))"
      using count_license_same [OF assms True Cons.prems(1) n] by simp
    from Cons.IH [OF this rest'] True show ?thesis by simp
  next
    case False
    have "map_of (count_license acc org) k = (if n = 0 then None else Some (JNum (int n)))"
      using count_license_other [OF False] Cons.prems(1) by simp
    from Cons.IH [OF this rest] False show ?thesis by simp
  qed
qed

text \<open>
  For a key that \<open>Object.prototype\<close> does not define, the histogram maps it to the number
  of organizations whose license is that key, and has no entry when there is none. The
  bound on the number of organizations, far above the length an array can have, keeps
  the counter in the range where adding one is exact.
\<close>

lemma license_histogram_counts:
  assumes "object_prototype k = None" and "length orgs \<le> 2 ^ 53"
  shows "obj_get (licenseBreakdown (calc_totals orgs)) k
           = (if length (filter (\<lambda>org. license_key org = k) orgs) = 0 then None
              else Some (JNum (int (length (filter (\<lambda>org. license_key org = k) orgs)))))"
  using foldl_count_license [OF assms(1), of "[]" 0 orgs] assms
  by (simp add: calc_totals_def obj_get_def)

lemmas license_defs = licensed_def calc_totals_def count_license_def obj_set_def obj_get_def
  object_prototype_def object_prototype_methods_def js_or_def js_add_def default_details_def
  to_string_def number_to_string_def number_text_def nearest_double_def add_numbers_def
  to_double_def digit_char_def

lemma license_histogram_example:
  "licenseBreakdown (calc_totals [licensed ''FREE'', licensed ''Enterprise'', licensed ''FREE''])
     = [(''FREE'', JNum 2), (''Enterprise'', JNum 1)]
   \<and> licenseBreakdown (calc_totals [licensed ''Free'', licensed ''FREE''])
     = [(''Free'', JNum 1), (''FREE'', JNum 1)]"
  by (simp add: license_defs)

text \<open>
  C7. The histogram is keyed by the literal string, but the count is wrong for a license
  that names a member of \<open>Object.prototype\<close>: for the licenses \<open>constructor\<close>, \<open>FREE\<close>,
  \<open>constructor\<close> the entry of \<open>constructor\<close> is a string built from the inherited
  function, not the number 2.
\<close>

theorem license_histogram_inherited_key:
  "licenseBreakdown (calc_totals [licensed ''constructor'', licensed ''FREE'', licensed ''constructor''])
     = [(''constructor'', JStr ''function Object() { [native code] }11''), (''FREE'', JNum 1)]"
  by (simp add: license_defs)

theorem license_histogram_inherited_key_witness:
  "obj_get (licenseBreakdown (calc_totals [licensed ''constructor'', licensed ''FREE'', licensed ''constructor''])) ''constructor''
     \<noteq> Some (JNum 2)"
  using license_histogram_inherited_key by (simp add: obj_get_def)


subsection \<open>Credentials round trip\<close>

lemma env_value_id: "CHR 0x00 \<notin> set v \<Longrightarrow> env_value v = v"
  by (auto simp: env_value_def)

lemma credentials_POST_try_200:
  assumes "credentials_POST_try st (Inr body) authRes = Inr (st', rep)" and "code rep = 200"
  shows "proc_env st'
           = \<lparr> BLUMIRA_CLIENT_ID = Some (env_value (to_string (js_prop body ''clientId''))),
               BLUMIRA_CLIENT_SECRET =
                 Some (env_value (to_string (js_prop body ''clientSecret''))) \<rparr>
       \<and> js_truthy (js_prop body ''clientId'') \<and> js_truthy (js_prop body ''clientSecret'')"
proof -
  from assms(1) have nn: "body \<noteq> JNull"
    by (auto simp: credentials_POST_try_def bind_def get_prop_def)
  from assms(1) nn have t: "js_truthy (js_prop body ''clientId'')"
      "js_truthy (js_prop body ''clientSecret'')"
    using assms(2)
    by (auto simp: credentials_POST_try_def bind_def get_prop_def split: if_splits)
  from assms(1) nn t obtain r where r: "authRes = Resolved r"
    by (cases authRes) (simp_all add: credentials_POST_try_def bind_def get_prop_def)
  from assms nn t r have okr: "ok r"
    by (auto simp: credentials_POST_try_def bind_def get_prop_def split: if_splits)
  from assms(1) nn t r okr obtain authData where a: "body_json r = Inr authData"
    by (cases "body_json r") (simp_all add: credentials_POST_try_def bind_def get_prop_def)
  from assms(1) nn t r okr a have an: "authData \<noteq> JNull"
    by (auto simp: credentials_POST_try_def bind_def get_prop_def)
  from assms nn t r okr a an have tok: "js_truthy (js_prop authData ''access_token'')"
    by (auto simp: credentials_POST_try_def bind_def get_prop_def split: if_splits)
  from assms(1) nn t r okr a an tok
  have "proc_env st'
           = \<lparr> BLUMIRA_CLIENT_ID = Some (env_value (to_string (js_prop body ''clientId''))),
               BLUMIRA_CLIENT_SECRET =
                 Some (env_value (to_string (js_prop body ''clientSecret''))) \<rparr>"
    by (auto simp: credentials_POST_try_def bind_def get_prop_def split: sum.splits)
  with t show ?thesis by simp
qed

lemma credentials_POST_200:
  assumes "code (snd (credentials_POST st (Inr body) authRes)) = 200"
  shows "proc_env (fst (credentials_POST st (Inr body) authRes))
           = \<lparr> BLUMIRA_CLIENT_ID = Some (env_value (to_string (js_prop body ''clientId''))),
               BLUMIRA_CLIENT_SECRET =
                 Some (env_value (to_string (js_prop body ''clientSecret''))) \<rparr>
       \<and> js_truthy (js_prop body ''clientId'') \<and> js_truthy (js_prop body ''clientSecret'')"
proof (cases "credentials_POST_try st (Inr body) authRes")
  case (Inl e)
  with assms show ?thesis by (simp add: credentials_POST_def)
next
  case (Inr p)
  obtain st' rep where p: "p = (st', rep)" by (cases p)
  with Inr assms have "code rep = 200" by (simp add: credentials_POST_def)
  from credentials_POST_try_200 [OF Inr [unfolded p] this] Inr p show ?thesis
    by (simp add: credentials_POST_def)
qed

lemma credentials_POST_accepts:
  assumes "js_truthy (js_prop body ''clientId'')" and "js_truthy (js_prop body ''clientSecret'')"
    and "ok r" and "body_json r = Inr authData"
    and "js_truthy (js_prop authData ''access_token'')"
    and "read_error (disk st) = None" and "write_error (disk st) = None"
  shows "code (snd (credentials_POST st (Inr body) (Resolved r))) = 200"
proof -
  from assms(1) have b: "body \<noteq> JNull" by (cases body) simp_all
  from assms(5) have a: "authData \<noteq> JNull" by (cases authData) simp_all
  have rd: "(if existsSync (disk st) then readFileSync (disk st) else Inr [])
              = Inr (case env_file (disk st) of None \<Rightarrow> [] | Some c \<Rightarrow> c)"
    using assms(6) by (simp add: existsSync_def readFileSync_def split: option.splits)
  show ?thesis
    using assms b a
    by (simp add: credentials_POST_def credentials_POST_try_def bind_def get_prop_def rd
          writeFileSync_def)
qed

lemma credentials_DELETE_200:
  assumes "code (snd (credentials_DELETE st)) = 200"
  shows "proc_env (fst (credentials_DELETE st))
           = \<lparr> BLUMIRA_CLIENT_ID = None, BLUMIRA_CLIENT_SECRET = None \<rparr>"
  using assms
  by (auto simp: credentials_DELETE_def credentials_DELETE_try_def bind_def
           split: sum.splits if_splits)

lemma credentials_DELETE_accepts:
  assumes "read_error (disk st) = None" and "write_error (disk st) = None"
  shows "code (snd (credentials_DELETE st)) = 200"
  using assms
  by (simp add: credentials_DELETE_def credentials_DELETE_try_def bind_def existsSync_def
        readFileSync_def writeFileSync_def split: option.splits)

text \<open>
  C8, as amended. Take a \<open>POST\<close> whose body carries the strings \<open>clientId\<close> and
  \<open>clientSecret\<close>, neither containing \<open>U+0000\<close>. If it is answered 200, a following \<open>GET\<close>
  reports \<open>hasCredentials\<close> true with the lengths of the two submitted strings, both
  non-zero; and it is answered 200 whenever both strings are non-empty, the token
  endpoint answers 2xx with a truthy \<open>access_token\<close>, and reading and writing the
  credentials file do not throw. If a \<open>DELETE\<close> is answered 200, a following \<open>GET\<close> reports
  \<open>hasCredentials\<close> false; and it is answered 200 whenever the file operations do not
  throw.
\<close>

theorem credentials_round_trip:
  assumes "js_prop body ''clientId'' = Some (JStr clientId)"
    and "js_prop body ''clientSecret'' = Some (JStr clientSecret)"
    and "CHR 0x00 \<notin> set clientId" and "CHR 0x00 \<notin> set clientSecret"
  shows "(code (snd (credentials_POST st (Inr body) authRes)) = 200 \<longrightarrow>
            credentials_GET (fst (credentials_POST st (Inr body) authRes))
              = \<lparr> code = 200,
                  payload = Status \<lparr> hasCredentials = True, hasClientId = True,
                                     hasClientSecret = True,
                                     clientIdLength = length clientId,
                                     clientSecretLength = length clientSecret \<rparr> \<rparr>
            \<and> 0 < length clientId \<and> 0 < length clientSecret)
       \<and> (clientId \<noteq> [] \<and> clientSecret \<noteq> [] \<and> ok r \<and> body_json r = Inr authData
            \<and> js_truthy (js_prop authData ''access_token'')
            \<and> read_error (disk st) = None \<and> write_error (disk st) = None \<longrightarrow>
            code (snd (credentials_POST st (Inr body) (Resolved r))) = 200)
       \<and> (code (snd (credentials_DELETE st2)) = 200 \<longrightarrow>
            credentials_GET (fst (credentials_DELETE st2))
              = \<lparr> code = 200, payload = Status no_credentials \<rparr>)
       \<and> (read_error (disk st2) = None \<and> write_error (disk st2) = None \<longrightarrow>
            code (snd (credentials_DELETE st2)) = 200)"
proof (intro conjI impI)
  assume ok200: "code (snd (credentials_POST st (Inr body) authRes)) = 200"
  from credentials_POST_200 [OF ok200] assms
  have e: "proc_env (fst (credentials_POST st (Inr body) authRes))
             = \<lparr> BLUMIRA_CLIENT_ID = Some clientId, BLUMIRA_CLIENT_SECRET = Some clientSecret \<rparr>"
    and ne: "clientId \<noteq> []" "clientSecret \<noteq> []"
    by (simp_all add: to_string_def env_value_id)
  from e ne show "credentials_GET (fst (credentials_POST st (Inr body) authRes))
              = \<lparr> code = 200,
                  payload = Status \<lparr> hasCredentials = True, hasClientId = True,
                                     hasClientSecret = True,
                                     clientIdLength = length clientId,
                                     clientSecretLength = length clientSecret \<rparr> \<rparr>"
    by (simp add: credentials_GET_def env_truthy_def)
  from ne show "0 < length clientId" "0 < length clientSecret" by simp_all
next
  assume "clientId \<noteq> [] \<and> clientSecret \<noteq> [] \<and> ok r \<and> body_json r = Inr authData
            \<and> js_truthy (js_prop authData ''access_token'')
            \<and> read_error (disk st) = None \<and> write_error (disk st) = None"
  with assms(1,2) show "code (snd (credentials_POST st (Inr body) (Resolved r))) = 200"
    by (intro credentials_POST_accepts [where authData = authData]) simp_all
next
  assume "code (snd (credentials_DELETE st2)) = 200"
  from credentials_DELETE_200 [OF this]
  show "credentials_GET (fst (credentials_DELETE st2))
          = \<lparr> code = 200, payload = Status no_credentials \<rparr>"
    by (simp add: credentials_GET_def env_truthy_def no_credentials_def)
next
  assume "read_error (disk st2) = None \<and> write_error (disk st2) = None"
  then show "code (snd (credentials_DELETE st2)) = 200"
    by (intro credentials_DELETE_accepts) simp_all
qed

lemmas credentials_defs = credentials_POST_def credentials_POST_try_def credentials_DELETE_def
  credentials_DELETE_try_def credentials_GET_def bind_def get_prop_def obj_get_def
  object_prototype_def object_prototype_methods_def existsSync_def readFileSync_def
  writeFileSync_def env_truthy_def env_value_def to_string_def ok_def sample_state_def
  read_only_state_def configured_read_only_state_def sample_request_def nul_request_def
  sample_token_def json_response_def no_credentials_def

theorem credentials_round_trip_witness:
  "code (snd (credentials_POST sample_state (Inr sample_request) sample_token)) = 200
   \<and> credentials_GET (fst (credentials_POST sample_state (Inr sample_request) sample_token))
     = \<lparr> code = 200,
         payload = Status \<lparr> hasCredentials = True, hasClientId = True, hasClientSecret = True,
                            clientIdLength = 3, clientSecretLength = 6 \<rparr> \<rparr>
   \<and> code (snd (credentials_DELETE
                  (fst (credentials_POST sample_state (Inr sample_request) sample_token)))) = 200
   \<and> credentials_GET
        (fst (credentials_DELETE (fst (credentials_POST sample_state (Inr sample_request) sample_token))))
     = \<lparr> code = 200, payload = Status no_credentials \<rparr>"
proof -
  have p: "js_prop sample_request ''clientId'' = Some (JStr ''abc'')"
      "js_prop sample_request ''clientSecret'' = Some (JStr ''s3cret'')"
      "CHR 0x00 \<notin> set ''abc''" "CHR 0x00 \<notin> set ''s3cret''"
    by (simp_all add: sample_request_def obj_get_def)
  have c: "code (snd (credentials_POST sample_state (Inr sample_request) sample_token)) = 200"
    by (simp add: credentials_defs remove_credentials_def startsWith_def newline_def)
  have d: "code (snd (credentials_DELETE
                  (fst (credentials_POST sample_state (Inr sample_request) sample_token)))) = 200"
    by (simp add: credentials_defs remove_credentials_def startsWith_def newline_def)
  show ?thesis
    using credentials_round_trip [OF p, of sample_state sample_token _ _
        "fst (credentials_POST sample_state (Inr sample_request) sample_token)"] c d
    by simp
qed

text \<open>
  C8 as stated fails. On a file system that refuses the write, an accepted \<open>POST\<close> is
  answered 500 and the following \<open>GET\<close> reports \<open>hasCredentials\<close> false, and a \<open>DELETE\<close> is
  answered 500 and the following \<open>GET\<close> still reports \<open>hasCredentials\<close> true. And a client
  id that consists of \<open>U+0000\<close> is accepted with status 200 but reported absent.
\<close>

theorem credentials_round_trip_fails:
  "code (snd (credentials_POST read_only_state (Inr sample_request) sample_token)) = 500
   \<and> credentials_GET (fst (credentials_POST read_only_state (Inr sample_request) sample_token))
     = \<lparr> code = 200, payload = Status no_credentials \<rparr>
   \<and> code (snd (credentials_DELETE configured_read_only_state)) = 500
   \<and> credentials_GET (fst (credentials_DELETE configured_read_only_state))
     = \<lparr> code = 200,
         payload = Status \<lparr> hasCredentials = True, hasClientId = True, hasClientSecret = True,
                            clientIdLength = 3, clientSecretLength = 6 \<rparr> \<rparr>
   \<and> code (snd (credentials_POST sample_state (Inr nul_request) sample_token)) = 200
   \<and> credentials_GET (fst (credentials_POST sample_state (Inr nul_request) sample_token))
     = \<lparr> code = 200,
         payload = Status \<lparr> hasCredentials = False, hasClientId = False, hasClientSecret = True,
                            clientIdLength = 0, clientSecretLength = 6 \<rparr> \<rparr>"
  by (simp add: credentials_defs remove_credentials_def startsWith_def newline_def)

subsection \<open>The order of the requests\<close>






























lemma results_nth:
  "i < length accounts \<Longrightarrow>
     map (\<lambda>(i, acct). org_summary (upstream i) acct) (enumerate 0 accounts) ! i =
       org_summary (upstream i) (accounts ! i)"
  by (simp add: nth_enumerate_eq)









end
